theory Spec2Isabelle
  imports Main "HOL-Library.AList"
begin

section \<open>Values, documents and dictionaries\<close>

text \<open>
  A stored record is a Python dict from field names to values. The values that the three
  schemas and the update handlers of \<^verbatim>\<open>main.py\<close> can put into a record are flat:
  null, booleans, integers, strings, the store's identifier (\<^verbatim>\<open>bson.ObjectId\<close>, kept as its
  24 lower-case hexadecimal digits), calendar dates and naive date-times (year, month, day,
  hour, minute, second, microsecond). A dict is an association list in insertion order.
\<close>

datatype pyval =
    VNone
  | VBool bool
  | VInt int
  | VStr string
  | VObjectId string
  | VDate nat nat nat
  | VDateTime nat nat nat nat nat nat nat

type_synonym doc = "(string \<times> pyval) list"

definition wf_dict :: "doc \<Rightarrow> bool" where
  \<comment> \<open>a Python dict holds every key once\<close>
  "wf_dict d \<longleftrightarrow> distinct (map fst d)"

definition dict_contains :: "string \<Rightarrow> doc \<Rightarrow> bool" where
  \<comment> \<open>\<^verbatim>\<open>k in d\<close>\<close>
  "dict_contains k d \<longleftrightarrow> map_of d k \<noteq> None"

definition dict_get :: "doc \<Rightarrow> string \<Rightarrow> pyval" where
  \<comment> \<open>\<^verbatim>\<open>d.get(k)\<close>: None for a missing key\<close>
  "dict_get d k = (case map_of d k of None \<Rightarrow> VNone | Some v \<Rightarrow> v)"

definition dict_set :: "string \<Rightarrow> pyval \<Rightarrow> doc \<Rightarrow> doc" where
  \<comment> \<open>\<^verbatim>\<open>d[k] = v\<close>: in place for a key that is there, appended otherwise\<close>
  "dict_set k v d = AList.update k v d"

definition dict_pop :: "string \<Rightarrow> doc \<Rightarrow> pyval \<times> doc" where
  \<comment> \<open>\<^verbatim>\<open>d.pop(k)\<close> for a key that is there (the only use in the source is guarded by \<^verbatim>\<open>k in d\<close>)\<close>
  "dict_pop k d = (dict_get d k, AList.delete k d)"

subsection \<open>Text forms of values\<close>

definition digit_char :: "nat \<Rightarrow> char" where
  "digit_char n = ''0123456789'' ! (n mod 10)"

function show_nat :: "nat \<Rightarrow> string" where
  "show_nat n = (if n < 10 then [digit_char n] else show_nat (n div 10) @ [digit_char n])"
  by pat_completeness auto
termination
  by (relation "measure id") auto

declare show_nat.simps [simp del]

definition show_int :: "int \<Rightarrow> string" where
  "show_int i = (if i < 0 then CHR ''-'' # show_nat (nat (- i)) else show_nat (nat i))"

definition pad2 :: "nat \<Rightarrow> string" where
  "pad2 n = [digit_char (n div 10), digit_char n]"

definition pad4 :: "nat \<Rightarrow> string" where
  "pad4 n = [digit_char (n div 1000), digit_char (n div 100), digit_char (n div 10), digit_char n]"

definition pad6 :: "nat \<Rightarrow> string" where
  "pad6 n = [digit_char (n div 100000), digit_char (n div 10000), digit_char (n div 1000),
             digit_char (n div 100), digit_char (n div 10), digit_char n]"

definition iso_date :: "nat \<Rightarrow> nat \<Rightarrow> nat \<Rightarrow> string" where
  "iso_date y m d = pad4 y @ ''-'' @ pad2 m @ ''-'' @ pad2 d"

definition iso_time :: "nat \<Rightarrow> nat \<Rightarrow> nat \<Rightarrow> nat \<Rightarrow> string" where
  "iso_time h mi s us =
     pad2 h @ '':'' @ pad2 mi @ '':'' @ pad2 s @ (if us = 0 then [] else ''.'' @ pad6 us)"

fun has_isoformat :: "pyval \<Rightarrow> bool" where
  \<comment> \<open>\<^verbatim>\<open>hasattr(v, "isoformat")\<close>\<close>
  "has_isoformat (VDate y m d) = True"
| "has_isoformat (VDateTime y m d h mi s us) = True"
| "has_isoformat v = False"

fun isoformat :: "pyval \<Rightarrow> string" where
  \<comment> \<open>\<^verbatim>\<open>v.isoformat()\<close> of \<^verbatim>\<open>datetime.date\<close> and of a naive \<^verbatim>\<open>datetime.datetime\<close>\<close>
  "isoformat (VDate y m d) = iso_date y m d"
| "isoformat (VDateTime y m d h mi s us) = iso_date y m d @ ''T'' @ iso_time h mi s us"
| "isoformat v = []"

fun py_str :: "pyval \<Rightarrow> string" where
  \<comment> \<open>\<^verbatim>\<open>str(v)\<close>; for an ObjectId its 24 hexadecimal digits\<close>
  "py_str VNone = ''None''"
| "py_str (VBool b) = (if b then ''True'' else ''False'')"
| "py_str (VInt i) = show_int i"
| "py_str (VStr s) = s"
| "py_str (VObjectId h) = h"
| "py_str (VDate y m d) = iso_date y m d"
| "py_str (VDateTime y m d h mi s us) = iso_date y m d @ '' '' @ iso_time h mi s us"

subsection \<open>Python strings\<close>

text \<open>
  A \<open>string\<close> here is the UTF-8 encoding of a Python \<^verbatim>\<open>str\<close>. Python counts and slices code
  points, so \<^verbatim>\<open>len(s)\<close> counts the bytes that start a code point and \<^verbatim>\<open>s[:n]\<close> keeps the
  first \<open>n\<close> code points with all their bytes.
\<close>

definition is_continuation :: "char \<Rightarrow> bool" where
  \<comment> \<open>the bytes \<^verbatim>\<open>10xxxxxx\<close> of a multi-byte code point\<close>
  "is_continuation c \<longleftrightarrow> 128 \<le> (of_char c :: nat) \<and> (of_char c :: nat) < 192"

definition py_len :: "string \<Rightarrow> nat" where
  \<comment> \<open>\<^verbatim>\<open>len(s)\<close>\<close>
  "py_len s = length (filter (\<lambda>c. \<not> is_continuation c) s)"

fun py_prefix :: "nat \<Rightarrow> string \<Rightarrow> string" where
  \<comment> \<open>\<^verbatim>\<open>s[:n]\<close>\<close>
  "py_prefix n [] = []"
| "py_prefix n (c # cs) =
     (if is_continuation c then c # py_prefix n cs
      else (case n of 0 \<Rightarrow> [] | Suc m \<Rightarrow> c # py_prefix m cs))"

subsection \<open>Identifier parsing\<close>

text \<open>
  \<^verbatim>\<open>ObjectId(s)\<close> of the bson package, on a string: a string of \<^verbatim>\<open>len\<close> 24 is handed to
  \<^verbatim>\<open>bytes.fromhex\<close>, any other raises \<^verbatim>\<open>InvalidId\<close>, and so does a string that
  \<^verbatim>\<open>bytes.fromhex\<close> refuses. \<^verbatim>\<open>bytes.fromhex\<close> reads pairs of hexadecimal digits and skips
  ASCII whitespace before each pair; so a string of 24 characters with whitespace in it may
  parse, to fewer than 12 bytes. The identifier is kept as the lower-case hexadecimal digits
  of its bytes, which is its \<^verbatim>\<open>str\<close>.
\<close>

definition is_hex :: "char \<Rightarrow> bool" where
  "is_hex c \<longleftrightarrow> c \<in> set ''0123456789abcdefABCDEF''"

definition lower_hex :: "char \<Rightarrow> char" where
  "lower_hex c = (case map_of (zip ''ABCDEF'' ''abcdef'') c of None \<Rightarrow> c | Some l \<Rightarrow> l)"

definition is_space :: "char \<Rightarrow> bool" where
  \<comment> \<open>space, tab, line feed, vertical tab, form feed, carriage return\<close>
  "is_space c \<longleftrightarrow> c \<in> set [CHR '' '', CHR 0x09, CHR 0x0A, CHR 0x0B, CHR 0x0C, CHR 0x0D]"

fun fromhex :: "string \<Rightarrow> string option" where
  \<comment> \<open>\<^verbatim>\<open>bytes.fromhex(s)\<close>, the bytes given by their hexadecimal digits\<close>
  "fromhex [] = Some []"
| "fromhex [c] = (if is_space c then Some [] else None)"
| "fromhex (c # d # cs) =
     (if is_space c then fromhex (d # cs)
      else if is_hex c \<and> is_hex d
        then (case fromhex cs of None \<Rightarrow> None | Some r \<Rightarrow> Some (lower_hex c # lower_hex d # r))
        else None)"

definition ObjectId :: "string \<Rightarrow> string option" where
  "ObjectId s = (if py_len s = 24 then fromhex s else None)"

section \<open>The serialization helper\<close>

definition iso_step :: "string \<times> pyval \<Rightarrow> doc \<Rightarrow> doc" where
  \<comment> \<open>one round of the loop over \<^verbatim>\<open>list(doc.items())\<close>\<close>
  "iso_step kv d = (if has_isoformat (snd kv) then dict_set (fst kv) (VStr (isoformat (snd kv))) d else d)"

definition rename_id :: "doc \<Rightarrow> doc" where
  \<comment> \<open>\<^verbatim>\<open>if "_id" in doc: doc["id"] = str(doc.pop("_id"))\<close>\<close>
  "rename_id d =
     (if dict_contains ''_id'' d
      then (let (v, d') = dict_pop ''_id'' d in dict_set ''id'' (VStr (py_str v)) d')
      else d)"

fun serialize_doc :: "doc option \<Rightarrow> doc option" where
  "serialize_doc None = None"
| "serialize_doc (Some d) =
     (if d = [] then Some d
      else (let d1 = rename_id d in Some (fold iso_step d1 d1)))"

subsection \<open>The same function on a heap of dict objects\<close>

text \<open>
  To speak about mutation, dicts live at addresses: \<^verbatim>\<open>dict(doc)\<close> allocates a new object,
  and every later assignment of the function goes through the local variable \<^verbatim>\<open>doc\<close>,
  which then holds the new address.
\<close>

record heap =
  cells :: "nat \<Rightarrow> doc"
  next_free :: nat

definition heap_copy :: "nat \<Rightarrow> heap \<Rightarrow> nat \<times> heap" where
  \<comment> \<open>\<^verbatim>\<open>dict(doc)\<close>\<close>
  "heap_copy a h = (next_free h, h\<lparr>cells := (cells h)(next_free h := cells h a), next_free := Suc (next_free h)\<rparr>)"

definition heap_mutate :: "nat \<Rightarrow> (doc \<Rightarrow> doc) \<Rightarrow> heap \<Rightarrow> heap" where
  "heap_mutate a f h = h\<lparr>cells := (cells h)(a := f (cells h a))\<rparr>"

definition serialize_doc_heap :: "nat \<Rightarrow> heap \<Rightarrow> nat \<times> heap" where
  "serialize_doc_heap a h =
     (if cells h a = [] then (a, h)
      else (let (c, h1) = heap_copy a h;
                h2 = (if dict_contains ''_id'' (cells h1 c) then heap_mutate c rename_id h1 else h1);
                items = cells h2 c;
                h3 = fold (\<lambda>kv. heap_mutate c (iso_step kv)) items h2
            in (c, h3)))"

section \<open>The schema layer (schemas.py)\<close>

datatype Semester = Fall | Spring | Summer

datatype DayOfWeek = Monday | Tuesday | Wednesday | Thursday | Friday | Saturday

definition Semester_of :: "string \<Rightarrow> Semester option" where
  "Semester_of s = map_of [(''Fall'', Fall), (''Spring'', Spring), (''Summer'', Summer)] s"

definition DayOfWeek_of :: "string \<Rightarrow> DayOfWeek option" where
  "DayOfWeek_of s = map_of [(''Monday'', Monday), (''Tuesday'', Tuesday), (''Wednesday'', Wednesday),
     (''Thursday'', Thursday), (''Friday'', Friday), (''Saturday'', Saturday)] s"

definition Semester_value :: "Semester \<Rightarrow> string" where
  "Semester_value x = (case x of Fall \<Rightarrow> ''Fall'' | Spring \<Rightarrow> ''Spring'' | Summer \<Rightarrow> ''Summer'')"

definition DayOfWeek_value :: "DayOfWeek \<Rightarrow> string" where
  "DayOfWeek_value x =
     (case x of Monday \<Rightarrow> ''Monday'' | Tuesday \<Rightarrow> ''Tuesday'' | Wednesday \<Rightarrow> ''Wednesday''
      | Thursday \<Rightarrow> ''Thursday'' | Friday \<Rightarrow> ''Friday'' | Saturday \<Rightarrow> ''Saturday'')"

record Event =
  e_title :: string
  e_description :: "string option"
  e_date :: "nat \<times> nat \<times> nat"
  e_time :: "string option"
  e_location :: "string option"
  e_audience :: "string option"
  e_link :: "string option"

text \<open>
  A create payload after JSON decoding: every field may be absent (\<open>None\<close>); \<^verbatim>\<open>credits\<close>
  distinguishes absent (\<open>None\<close>, the default 3 applies) from an explicit null (\<open>Some None\<close>).
\<close>

record CourseInput =
  ci_code :: "string option"
  ci_title :: "string option"
  ci_semester :: "string option"
  ci_year :: "int option"
  ci_lecturer :: "string option"
  ci_credits :: "int option option"
  ci_description :: "string option"

record Course =
  c_code :: string
  c_title :: string
  c_semester :: Semester
  c_year :: int
  c_lecturer :: "string option"
  c_credits :: "int option"
  c_description :: "string option"

record TimetableInput =
  ti_semester :: "string option"
  ti_year :: "int option"
  ti_day :: "string option"
  ti_start_time :: "string option"
  ti_end_time :: "string option"
  ti_course_code :: "string option"
  ti_venue :: "string option"
  ti_lecturer :: "string option"
  ti_notes :: "string option"

record Timetable =
  t_semester :: Semester
  t_year :: int
  t_day :: DayOfWeek
  t_start_time :: string
  t_end_time :: string
  t_course_code :: string
  t_venue :: "string option"
  t_lecturer :: "string option"
  t_notes :: "string option"

datatype validation_error = ValidationError "string list"

definition v_semester :: "string option \<Rightarrow> Semester option" where
  \<comment> \<open>\<^verbatim>\<open>Semester = Field(...)\<close>\<close>
  "v_semester x = (case x of None \<Rightarrow> None | Some s \<Rightarrow> Semester_of s)"

definition v_day :: "string option \<Rightarrow> DayOfWeek option" where
  \<comment> \<open>\<^verbatim>\<open>DayOfWeek = Field(...)\<close>\<close>
  "v_day x = (case x of None \<Rightarrow> None | Some s \<Rightarrow> DayOfWeek_of s)"

definition v_year :: "int option \<Rightarrow> int option" where
  \<comment> \<open>\<^verbatim>\<open>int = Field(..., ge=2000, le=2100)\<close>\<close>
  "v_year x = (case x of None \<Rightarrow> None | Some y \<Rightarrow> if 2000 \<le> y \<and> y \<le> 2100 then Some y else None)"

definition v_credits :: "int option option \<Rightarrow> int option option" where
  \<comment> \<open>\<^verbatim>\<open>Optional[int] = Field(3, ge=0, le=30)\<close>\<close>
  "v_credits x =
     (case x of None \<Rightarrow> Some (Some 3)
      | Some None \<Rightarrow> Some None
      | Some (Some c) \<Rightarrow> if 0 \<le> c \<and> c \<le> 30 then Some (Some c) else None)"

definition failed :: "string \<Rightarrow> 'a option \<Rightarrow> string list" where
  "failed name r = (case r of None \<Rightarrow> [name] | Some v \<Rightarrow> [])"

definition Course_errors :: "CourseInput \<Rightarrow> string list" where
  "Course_errors p =
     failed ''code'' (ci_code p) @ failed ''title'' (ci_title p)
     @ failed ''semester'' (v_semester (ci_semester p)) @ failed ''year'' (v_year (ci_year p))
     @ failed ''credits'' (v_credits (ci_credits p))"

definition validate_Course :: "CourseInput \<Rightarrow> validation_error + Course" where
  "validate_Course p =
     (case (ci_code p, ci_title p, v_semester (ci_semester p), v_year (ci_year p), v_credits (ci_credits p)) of
        (Some c, Some t, Some s, Some y, Some cr) \<Rightarrow>
          Inr \<lparr>c_code = c, c_title = t, c_semester = s, c_year = y, c_lecturer = ci_lecturer p,
               c_credits = cr, c_description = ci_description p\<rparr>
      | _ \<Rightarrow> Inl (ValidationError (Course_errors p)))"

definition Timetable_errors :: "TimetableInput \<Rightarrow> string list" where
  "Timetable_errors p =
     failed ''semester'' (v_semester (ti_semester p)) @ failed ''year'' (v_year (ti_year p))
     @ failed ''day'' (v_day (ti_day p)) @ failed ''start_time'' (ti_start_time p)
     @ failed ''end_time'' (ti_end_time p) @ failed ''course_code'' (ti_course_code p)"

definition validate_Timetable :: "TimetableInput \<Rightarrow> validation_error + Timetable" where
  "validate_Timetable p =
     (case (v_semester (ti_semester p), v_year (ti_year p), v_day (ti_day p),
            ti_start_time p, ti_end_time p, ti_course_code p) of
        (Some s, Some y, Some d, Some st, Some en, Some cc) \<Rightarrow>
          Inr \<lparr>t_semester = s, t_year = y, t_day = d, t_start_time = st, t_end_time = en,
               t_course_code = cc, t_venue = ti_venue p, t_lecturer = ti_lecturer p,
               t_notes = ti_notes p\<rparr>
      | _ \<Rightarrow> Inl (ValidationError (Timetable_errors p)))"

section \<open>The partial-update models (main.py)\<close>

record EventUpdate =
  eu_title :: "string option"
  eu_description :: "string option"
  eu_date :: "string option"
  eu_time :: "string option"
  eu_location :: "string option"
  eu_audience :: "string option"
  eu_link :: "string option"

record CourseUpdate =
  cu_code :: "string option"
  cu_title :: "string option"
  cu_semester :: "string option"
  cu_year :: "int option"
  cu_lecturer :: "string option"
  cu_credits :: "int option"
  cu_description :: "string option"

record TimetableUpdate =
  tu_semester :: "string option"
  tu_year :: "int option"
  tu_day :: "string option"
  tu_start_time :: "string option"
  tu_end_time :: "string option"
  tu_course_code :: "string option"
  tu_venue :: "string option"
  tu_lecturer :: "string option"
  tu_notes :: "string option"

definition opt_str :: "string option \<Rightarrow> pyval" where
  "opt_str x = (case x of None \<Rightarrow> VNone | Some s \<Rightarrow> VStr s)"

definition opt_int :: "int option \<Rightarrow> pyval" where
  "opt_int x = (case x of None \<Rightarrow> VNone | Some i \<Rightarrow> VInt i)"

definition EventUpdate_dump :: "EventUpdate \<Rightarrow> doc" where
  \<comment> \<open>\<^verbatim>\<open>payload.model_dump()\<close>\<close>
  "EventUpdate_dump p =
     [(''title'', opt_str (eu_title p)), (''description'', opt_str (eu_description p)),
      (''date'', opt_str (eu_date p)), (''time'', opt_str (eu_time p)),
      (''location'', opt_str (eu_location p)), (''audience'', opt_str (eu_audience p)),
      (''link'', opt_str (eu_link p))]"

definition CourseUpdate_dump :: "CourseUpdate \<Rightarrow> doc" where
  "CourseUpdate_dump p =
     [(''code'', opt_str (cu_code p)), (''title'', opt_str (cu_title p)),
      (''semester'', opt_str (cu_semester p)), (''year'', opt_int (cu_year p)),
      (''lecturer'', opt_str (cu_lecturer p)), (''credits'', opt_int (cu_credits p)),
      (''description'', opt_str (cu_description p))]"

definition TimetableUpdate_dump :: "TimetableUpdate \<Rightarrow> doc" where
  "TimetableUpdate_dump p =
     [(''semester'', opt_str (tu_semester p)), (''year'', opt_int (tu_year p)),
      (''day'', opt_str (tu_day p)), (''start_time'', opt_str (tu_start_time p)),
      (''end_time'', opt_str (tu_end_time p)), (''course_code'', opt_str (tu_course_code p)),
      (''venue'', opt_str (tu_venue p)), (''lecturer'', opt_str (tu_lecturer p)),
      (''notes'', opt_str (tu_notes p))]"

definition non_null :: "doc \<Rightarrow> doc" where
  \<comment> \<open>\<^verbatim>\<open>{k: v for k, v in payload.model_dump().items() if v is not None}\<close>\<close>
  "non_null dump = filter (\<lambda>kv. snd kv \<noteq> VNone) dump"

section \<open>The document store\<close>

text \<open>
  The store holds named collections of documents in natural (insertion) order, answers the
  \<^verbatim>\<open>isMaster\<close> command with a reply document, and may be unreachable: then every operation
  of the driver raises an exception carrying a message. Every operation sent to the store is
  recorded in \<open>oplog\<close>, so that "no store operation was performed" can be stated. The
  identifiers that the driver generates for inserted documents are the values of \<open>oid_gen\<close>
  at 0, 1, 2, ...; nothing is assumed about them. \<open>StoreException\<close> stands for an exception of
  the driver packages (pymongo, bson), which no handler but \<^verbatim>\<open>test_database\<close> catches.
\<close>

datatype store_op =
    Command string
  | UpdateOne string string
  | DeleteOne string string
  | FindOne string string
  | Find string
  | InsertOne string
  | ListCollectionNames

record store =
  colls :: "(string \<times> doc list) list"
  isMaster_reply :: doc
  fault :: "string option"
  oplog :: "store_op list"
  oid_gen :: "nat \<Rightarrow> string"
  oid_counter :: nat

type_synonym db = "store option"

datatype error =
    HTTPException nat string
  | StoreException string

definition coll :: "store \<Rightarrow> string \<Rightarrow> doc list" where
  \<comment> \<open>\<^verbatim>\<open>db[name]\<close>\<close>
  "coll s name = (case map_of (colls s) name of None \<Rightarrow> [] | Some ds \<Rightarrow> ds)"

definition log_op :: "store_op \<Rightarrow> store \<Rightarrow> store" where
  "log_op op s = s\<lparr>oplog := oplog s @ [op]\<rparr>"

definition has_id :: "string \<Rightarrow> doc \<Rightarrow> bool" where
  \<comment> \<open>the filter \<^verbatim>\<open>{"_id": oid}\<close>\<close>
  "has_id oid d \<longleftrightarrow> map_of d ''_id'' = Some (VObjectId oid)"

definition apply_set :: "doc \<Rightarrow> doc \<Rightarrow> doc" where
  \<comment> \<open>the update \<^verbatim>\<open>{"$set": data}\<close> on one document\<close>
  "apply_set data d = fold (\<lambda>kv. dict_set (fst kv) (snd kv)) data d"

fun update_first :: "(doc \<Rightarrow> bool) \<Rightarrow> (doc \<Rightarrow> doc) \<Rightarrow> doc list \<Rightarrow> doc list \<times> nat" where
  "update_first P f [] = ([], 0)"
| "update_first P f (d # ds) =
     (if P d then (f d # ds, 1)
      else (let (ds', n) = update_first P f ds in (d # ds', n)))"

fun delete_first :: "(doc \<Rightarrow> bool) \<Rightarrow> doc list \<Rightarrow> doc list \<times> nat" where
  "delete_first P [] = ([], 0)"
| "delete_first P (d # ds) =
     (if P d then (ds, 1)
      else (let (ds', n) = delete_first P ds in (d # ds', n)))"

definition command_isMaster :: "store \<Rightarrow> (error + doc) \<times> store" where
  \<comment> \<open>\<^verbatim>\<open>db.command("isMaster")\<close>\<close>
  "command_isMaster s =
     (case fault s of
        Some m \<Rightarrow> (Inl (StoreException m), log_op (Command ''isMaster'') s)
      | None \<Rightarrow> (Inr (isMaster_reply s), log_op (Command ''isMaster'') s))"

definition update_one :: "string \<Rightarrow> string \<Rightarrow> doc \<Rightarrow> store \<Rightarrow> (error + nat) \<times> store" where
  \<comment> \<open>\<^verbatim>\<open>db[name].update_one({"_id": oid}, {"$set": data})\<close>, giving the matched count\<close>
  "update_one name oid data s =
     (case fault s of
        Some m \<Rightarrow> (Inl (StoreException m), log_op (UpdateOne name oid) s)
      | None \<Rightarrow>
          (let (ds', n) = update_first (has_id oid) (apply_set data) (coll s name)
           in (Inr n, log_op (UpdateOne name oid)
                 (if n = 0 then s else s\<lparr>colls := AList.update name ds' (colls s)\<rparr>))))"

definition delete_one :: "string \<Rightarrow> string \<Rightarrow> store \<Rightarrow> (error + nat) \<times> store" where
  \<comment> \<open>\<^verbatim>\<open>db[name].delete_one({"_id": oid})\<close>, giving the deleted count\<close>
  "delete_one name oid s =
     (case fault s of
        Some m \<Rightarrow> (Inl (StoreException m), log_op (DeleteOne name oid) s)
      | None \<Rightarrow>
          (let (ds', n) = delete_first (has_id oid) (coll s name)
           in (Inr n, log_op (DeleteOne name oid)
                 (if n = 0 then s else s\<lparr>colls := AList.update name ds' (colls s)\<rparr>))))"

definition find_one :: "string \<Rightarrow> string \<Rightarrow> store \<Rightarrow> (error + doc option) \<times> store" where
  \<comment> \<open>\<^verbatim>\<open>db[name].find_one({"_id": oid})\<close>\<close>
  "find_one name oid s =
     (case fault s of
        Some m \<Rightarrow> (Inl (StoreException m), log_op (FindOne name oid) s)
      | None \<Rightarrow> (Inr (find (has_id oid) (coll s name)), log_op (FindOne name oid) s))"

definition list_collection_names :: "store \<Rightarrow> (error + string list) \<times> store" where
  \<comment> \<open>\<^verbatim>\<open>db.list_collection_names()\<close>\<close>
  "list_collection_names s =
     (case fault s of
        Some m \<Rightarrow> (Inl (StoreException m), log_op ListCollectionNames s)
      | None \<Rightarrow> (Inr (map fst (colls s)), log_op ListCollectionNames s))"

definition matches :: "doc \<Rightarrow> doc \<Rightarrow> bool" where
  \<comment> \<open>a filter of exact-match values\<close>
  "matches query d \<longleftrightarrow> list_all (\<lambda>kv. map_of d (fst kv) = Some (snd kv)) query"

definition cap :: "int option \<Rightarrow> 'a list \<Rightarrow> 'a list" where
  "cap limit xs = (case limit of None \<Rightarrow> xs | Some n \<Rightarrow> take (nat n) xs)"

text \<open>
  Modelled from the spec: \<^verbatim>\<open>get_documents\<close> of \<^verbatim>\<open>database.py\<close>, which is not among the
  sources. The spec's persistence adapter: "filter is a mapping of field name to exact-match
  value; when filter is empty, all records in the collection are returned, oldest first by
  natural insertion order unless a limit truncates the result. limit, when provided, caps the
  returned count; omitted means unbounded."
\<close>

definition get_documents :: "string \<Rightarrow> doc \<Rightarrow> int option \<Rightarrow> store \<Rightarrow> (error + doc list) \<times> store" where
  "get_documents name query limit s =
     (case fault s of
        Some m \<Rightarrow> (Inl (StoreException m), log_op (Find name) s)
      | None \<Rightarrow> (Inr (cap limit (filter (matches query) (coll s name))), log_op (Find name) s))"

section \<open>The handlers (main.py)\<close>

definition db_unavailable :: string where
  "db_unavailable = ''Database not available. Configure DATABASE_URL and DATABASE_NAME.''"

definition ensure_db_available :: "db \<Rightarrow> error + store" where
  "ensure_db_available db =
     (case db of None \<Rightarrow> Inl (HTTPException 500 db_unavailable) | Some s \<Rightarrow> Inr s)"

text \<open>
  The three update handlers are the same text up to the collection name and the two detail
  messages, and so are the three delete handlers; \<open>update_handler\<close> and \<open>delete_handler\<close>
  are that text, with the payload already dumped to a dict.
\<close>

definition update_handler ::
  "string \<Rightarrow> string \<Rightarrow> string \<Rightarrow> db \<Rightarrow> string \<Rightarrow> doc \<Rightarrow> (error + doc option) \<times> db" where
  "update_handler name invalid_id not_found db ident dump =
     (case ensure_db_available db of
        Inl e \<Rightarrow> (Inl e, db)
      | Inr s \<Rightarrow>
          (case ObjectId ident of
             None \<Rightarrow> (Inl (HTTPException 400 invalid_id), Some s)
           | Some oid \<Rightarrow>
               (let update_data = non_null dump in
                if update_data = [] then (Inl (HTTPException 400 ''No fields to update''), Some s)
                else
                  (case command_isMaster s of
                     (Inl e, s1) \<Rightarrow> (Inl e, Some s1)
                   | (Inr reply, s1) \<Rightarrow>
                       (let update_data = dict_set ''updated_at'' (dict_get reply ''localTime'') update_data in
                        case update_one name oid update_data s1 of
                          (Inl e, s2) \<Rightarrow> (Inl e, Some s2)
                        | (Inr matched_count, s2) \<Rightarrow>
                            if matched_count = 0 then (Inl (HTTPException 404 not_found), Some s2)
                            else
                              (case find_one name oid s2 of
                                 (Inl e, s3) \<Rightarrow> (Inl e, Some s3)
                               | (Inr d, s3) \<Rightarrow> (Inr (serialize_doc d), Some s3)))))))"

definition delete_handler ::
  "string \<Rightarrow> string \<Rightarrow> string \<Rightarrow> db \<Rightarrow> string \<Rightarrow> (error + bool) \<times> db" where
  "delete_handler name invalid_id not_found db ident =
     (case ensure_db_available db of
        Inl e \<Rightarrow> (Inl e, db)
      | Inr s \<Rightarrow>
          (case ObjectId ident of
             None \<Rightarrow> (Inl (HTTPException 400 invalid_id), Some s)
           | Some oid \<Rightarrow>
               (case delete_one name oid s of
                  (Inl e, s1) \<Rightarrow> (Inl e, Some s1)
                | (Inr deleted_count, s1) \<Rightarrow>
                    if deleted_count = 0 then (Inl (HTTPException 404 not_found), Some s1)
                    else (Inr True, Some s1))))"

definition update_event :: "db \<Rightarrow> string \<Rightarrow> EventUpdate \<Rightarrow> (error + doc option) \<times> db" where
  "update_event db event_id payload =
     update_handler ''event'' ''Invalid event id'' ''Event not found'' db event_id (EventUpdate_dump payload)"

definition delete_event :: "db \<Rightarrow> string \<Rightarrow> (error + bool) \<times> db" where
  "delete_event db event_id =
     delete_handler ''event'' ''Invalid event id'' ''Event not found'' db event_id"

definition update_course :: "db \<Rightarrow> string \<Rightarrow> CourseUpdate \<Rightarrow> (error + doc option) \<times> db" where
  "update_course db course_id payload =
     update_handler ''course'' ''Invalid course id'' ''Course not found'' db course_id (CourseUpdate_dump payload)"

definition delete_course :: "db \<Rightarrow> string \<Rightarrow> (error + bool) \<times> db" where
  "delete_course db course_id =
     delete_handler ''course'' ''Invalid course id'' ''Course not found'' db course_id"

definition update_timetable :: "db \<Rightarrow> string \<Rightarrow> TimetableUpdate \<Rightarrow> (error + doc option) \<times> db" where
  "update_timetable db slot_id payload =
     update_handler ''timetable'' ''Invalid timetable id'' ''Timetable slot not found'' db slot_id
       (TimetableUpdate_dump payload)"

definition delete_timetable :: "db \<Rightarrow> string \<Rightarrow> (error + bool) \<times> db" where
  "delete_timetable db slot_id =
     delete_handler ''timetable'' ''Invalid timetable id'' ''Timetable slot not found'' db slot_id"

definition list_courses ::
  "db \<Rightarrow> string option \<Rightarrow> int option \<Rightarrow> int option \<Rightarrow> (error + doc option list) \<times> db" where
  "list_courses db semester year limit =
     (case ensure_db_available db of
        Inl e \<Rightarrow> (Inl e, db)
      | Inr s \<Rightarrow>
          (let query = [];
               query = (case semester of None \<Rightarrow> query
                        | Some sem \<Rightarrow> if sem \<noteq> [] then dict_set ''semester'' (VStr sem) query else query);
               query = (case year of None \<Rightarrow> query | Some y \<Rightarrow> dict_set ''year'' (VInt y) query)
           in case get_documents ''course'' query limit s of
                (Inl e, s1) \<Rightarrow> (Inl e, Some s1)
              | (Inr docs, s1) \<Rightarrow> (Inr (map (\<lambda>d. serialize_doc (Some d)) docs), Some s1)))"

subsection \<open>Routing\<close>

text \<open>
  The route table: \<^verbatim>\<open>PUT /api/events/{id}\<close>, \<^verbatim>\<open>PUT /api/courses/{id}\<close> and
  \<^verbatim>\<open>PUT /api/timetable/{id}\<close> with their payload models, and the three \<^verbatim>\<open>DELETE\<close> routes.
\<close>

datatype entity = Event | Course | Timetable

datatype update_payload =
    EventPayload EventUpdate
  | CoursePayload CourseUpdate
  | TimetablePayload TimetableUpdate

fun collection_name :: "entity \<Rightarrow> string" where
  "collection_name Event = ''event''"
| "collection_name Course = ''course''"
| "collection_name Timetable = ''timetable''"

fun payload_entity :: "update_payload \<Rightarrow> entity" where
  "payload_entity (EventPayload p) = Event"
| "payload_entity (CoursePayload p) = Course"
| "payload_entity (TimetablePayload p) = Timetable"

fun model_dump :: "update_payload \<Rightarrow> doc" where
  "model_dump (EventPayload p) = EventUpdate_dump p"
| "model_dump (CoursePayload p) = CourseUpdate_dump p"
| "model_dump (TimetablePayload p) = TimetableUpdate_dump p"

fun invalid_id_detail :: "entity \<Rightarrow> string" where
  "invalid_id_detail Event = ''Invalid event id''"
| "invalid_id_detail Course = ''Invalid course id''"
| "invalid_id_detail Timetable = ''Invalid timetable id''"

fun not_found_detail :: "entity \<Rightarrow> string" where
  "not_found_detail Event = ''Event not found''"
| "not_found_detail Course = ''Course not found''"
| "not_found_detail Timetable = ''Timetable slot not found''"

fun put :: "db \<Rightarrow> string \<Rightarrow> update_payload \<Rightarrow> (error + doc option) \<times> db" where
  "put db ident (EventPayload p) = update_event db ident p"
| "put db ident (CoursePayload p) = update_course db ident p"
| "put db ident (TimetablePayload p) = update_timetable db ident p"

fun delete :: "db \<Rightarrow> entity \<Rightarrow> string \<Rightarrow> (error + bool) \<times> db" where
  "delete db Event ident = delete_event db ident"
| "delete db Course ident = delete_course db ident"
| "delete db Timetable ident = delete_timetable db ident"

section \<open>The diagnostic endpoint\<close>

record environ =
  DATABASE_URL :: "string option"
  DATABASE_NAME :: "string option"

record test_response =
  backend :: string
  database :: string
  database_url :: string
  database_name :: string
  connection_status :: string
  collections :: "string list"

definition check_mark :: string where
  \<comment> \<open>U+2705 in UTF-8\<close>
  "check_mark = [CHR 0xE2, CHR 0x9C, CHR 0x85]"

definition cross_mark :: string where
  \<comment> \<open>U+274C in UTF-8\<close>
  "cross_mark = [CHR 0xE2, CHR 0x9D, CHR 0x8C]"

definition truthy :: "string option \<Rightarrow> bool" where
  \<comment> \<open>the truth value of \<^verbatim>\<open>os.getenv(name)\<close>: unset and empty are both false\<close>
  "truthy x = (case x of None \<Rightarrow> False | Some v \<Rightarrow> v \<noteq> [])"

definition set_or_not :: "string option \<Rightarrow> string" where
  "set_or_not x = (if truthy x then check_mark @ '' Set'' else cross_mark @ '' Not Set'')"

fun on_exception :: "error \<Rightarrow> test_response \<Rightarrow> test_response" where
  \<comment> \<open>the two \<^verbatim>\<open>except\<close> clauses\<close>
  "on_exception (HTTPException code detail) r = r\<lparr>database := cross_mark @ '' '' @ detail\<rparr>"
| "on_exception (StoreException m) r = r\<lparr>database := cross_mark @ '' Error: '' @ py_prefix 80 m\<rparr>"

definition test_database :: "environ \<Rightarrow> db \<Rightarrow> (error + test_response) \<times> db" where
  "test_database env db =
     (let response = \<lparr>backend = check_mark @ '' Running'',
                      database = cross_mark @ '' Not Available'',
                      database_url = set_or_not (DATABASE_URL env),
                      database_name = set_or_not (DATABASE_NAME env),
                      connection_status = ''Not Connected'',
                      collections = []\<rparr>
      in case ensure_db_available db of
           Inl e \<Rightarrow> (Inr (on_exception e response), db)
         | Inr s \<Rightarrow>
             (let response = response\<lparr>connection_status := ''Connected''\<rparr>;
                  response = response\<lparr>database := check_mark @ '' Connected & Working''\<rparr>
              in case list_collection_names s of
                   (Inl e, s1) \<Rightarrow> (Inr (on_exception e response), Some s1)
                 | (Inr names, s1) \<Rightarrow> (Inr (response\<lparr>collections := names\<rparr>), Some s1)))"

section \<open>Creation and the other list handlers\<close>

definition Event_dump :: "Event \<Rightarrow> doc" where
  "Event_dump p =
     [(''title'', VStr (e_title p)), (''description'', opt_str (e_description p)),
      (''date'', (case e_date p of (y, m, d) \<Rightarrow> VDate y m d)), (''time'', opt_str (e_time p)),
      (''location'', opt_str (e_location p)), (''audience'', opt_str (e_audience p)),
      (''link'', opt_str (e_link p))]"

definition Course_dump :: "Course \<Rightarrow> doc" where
  "Course_dump p =
     [(''code'', VStr (c_code p)), (''title'', VStr (c_title p)),
      (''semester'', VStr (Semester_value (c_semester p))), (''year'', VInt (c_year p)),
      (''lecturer'', opt_str (c_lecturer p)), (''credits'', opt_int (c_credits p)),
      (''description'', opt_str (c_description p))]"

definition Timetable_dump :: "Timetable \<Rightarrow> doc" where
  "Timetable_dump p =
     [(''semester'', VStr (Semester_value (t_semester p))), (''year'', VInt (t_year p)),
      (''day'', VStr (DayOfWeek_value (t_day p))), (''start_time'', VStr (t_start_time p)),
      (''end_time'', VStr (t_end_time p)), (''course_code'', VStr (t_course_code p)),
      (''venue'', opt_str (t_venue p)), (''lecturer'', opt_str (t_lecturer p)),
      (''notes'', opt_str (t_notes p))]"

text \<open>
  \<^verbatim>\<open>insert_one\<close> of the driver and the store: a document without \<^verbatim>\<open>_id\<close> gets the next
  identifier the driver generates, and the store, whose index on \<^verbatim>\<open>_id\<close> is unique per
  collection, refuses a document whose \<^verbatim>\<open>_id\<close> is already there (error E11000).
\<close>

definition insert_one :: "string \<Rightarrow> doc \<Rightarrow> store \<Rightarrow> (error + pyval) \<times> store" where
  "insert_one name document s =
     (let oid = oid_gen s (oid_counter s);
          document = (if dict_contains ''_id'' document then document
                      else dict_set ''_id'' (VObjectId oid) document);
          s1 = log_op (InsertOne name) (s\<lparr>oid_counter := Suc (oid_counter s)\<rparr>)
      in case fault s of
           Some m \<Rightarrow> (Inl (StoreException m), s1)
         | None \<Rightarrow>
             if list_ex (\<lambda>d. map_of d ''_id'' = map_of document ''_id'') (coll s name)
             then (Inl (StoreException ''E11000 duplicate key error''), s1)
             else (Inr (dict_get document ''_id''),
                   s1\<lparr>colls := AList.update name (coll s name @ [document]) (colls s1)\<rparr>))"

text \<open>
  Modelled from the spec: \<^verbatim>\<open>create_document\<close> of \<^verbatim>\<open>database.py\<close>, which is not among the
  sources. The spec's persistence adapter: "create(collection, validatedEntity) -> identifier:
  inserts the entity, returns the newly assigned unique identifier. Fails with a StorageError
  if the underlying store is unreachable." The entity arrives here as its dumped dict, and
  the identifier is returned as text, since the handlers parse it with \<^verbatim>\<open>ObjectId\<close>.
\<close>

definition create_document :: "string \<Rightarrow> doc \<Rightarrow> store \<Rightarrow> (error + string) \<times> store" where
  "create_document name entity s =
     (case insert_one name entity s of
        (Inl e, s1) \<Rightarrow> (Inl e, s1)
      | (Inr inserted_id, s1) \<Rightarrow> (Inr (py_str inserted_id), s1))"

text \<open>The three create handlers are the same text up to the collection name.\<close>

definition create_handler :: "string \<Rightarrow> db \<Rightarrow> doc \<Rightarrow> (error + doc option) \<times> db" where
  "create_handler name db entity =
     (case ensure_db_available db of
        Inl e \<Rightarrow> (Inl e, db)
      | Inr s \<Rightarrow>
          (case create_document name entity s of
             (Inl e, s1) \<Rightarrow> (Inl e, Some s1)
           | (Inr new_id, s1) \<Rightarrow>
               (case ObjectId new_id of
                  None \<Rightarrow> (Inl (StoreException ''InvalidId''), Some s1)
                | Some oid \<Rightarrow>
                    (case find_one name oid s1 of
                       (Inl e, s2) \<Rightarrow> (Inl e, Some s2)
                     | (Inr d, s2) \<Rightarrow> (Inr (serialize_doc d), Some s2)))))"

definition create_event :: "db \<Rightarrow> Event \<Rightarrow> (error + doc option) \<times> db" where
  "create_event db payload = create_handler ''event'' db (Event_dump payload)"

definition create_course :: "db \<Rightarrow> Course \<Rightarrow> (error + doc option) \<times> db" where
  "create_course db payload = create_handler ''course'' db (Course_dump payload)"

definition create_timetable :: "db \<Rightarrow> Timetable \<Rightarrow> (error + doc option) \<times> db" where
  "create_timetable db payload = create_handler ''timetable'' db (Timetable_dump payload)"

definition list_events :: "db \<Rightarrow> int option \<Rightarrow> (error + doc option list) \<times> db" where
  "list_events db limit =
     (case ensure_db_available db of
        Inl e \<Rightarrow> (Inl e, db)
      | Inr s \<Rightarrow>
          (case get_documents ''event'' [] limit s of
             (Inl e, s1) \<Rightarrow> (Inl e, Some s1)
           | (Inr docs, s1) \<Rightarrow> (Inr (map (\<lambda>d. serialize_doc (Some d)) docs), Some s1)))"

definition list_timetable ::
  "db \<Rightarrow> string option \<Rightarrow> int option \<Rightarrow> string option \<Rightarrow> int option \<Rightarrow> (error + doc option list) \<times> db" where
  "list_timetable db semester year day limit =
     (case ensure_db_available db of
        Inl e \<Rightarrow> (Inl e, db)
      | Inr s \<Rightarrow>
          (let query = [];
               query = (case semester of None \<Rightarrow> query
                        | Some sem \<Rightarrow> if sem \<noteq> [] then dict_set ''semester'' (VStr sem) query else query);
               query = (case year of None \<Rightarrow> query | Some y \<Rightarrow> dict_set ''year'' (VInt y) query);
               query = (case day of None \<Rightarrow> query
                        | Some dy \<Rightarrow> if dy \<noteq> [] then dict_set ''day'' (VStr dy) query else query)
           in case get_documents ''timetable'' query limit s of
                (Inl e, s1) \<Rightarrow> (Inl e, Some s1)
              | (Inr docs, s1) \<Rightarrow> (Inr (map (\<lambda>d. serialize_doc (Some d)) docs), Some s1)))"

subsection \<open>Requests\<close>

text \<open>
  Every route of the service that reaches the database handle, and the state of the handle
  after a request and after a sequence of requests.
\<close>

datatype create_payload =
    EventEntity Event
  | CourseEntity Course
  | TimetableEntity Timetable

fun entity_dump :: "create_payload \<Rightarrow> doc" where
  "entity_dump (EventEntity p) = Event_dump p"
| "entity_dump (CourseEntity p) = Course_dump p"
| "entity_dump (TimetableEntity p) = Timetable_dump p"

fun created_entity :: "create_payload \<Rightarrow> entity" where
  "created_entity (EventEntity p) = Event"
| "created_entity (CourseEntity p) = Course"
| "created_entity (TimetableEntity p) = Timetable"

fun post :: "db \<Rightarrow> create_payload \<Rightarrow> (error + doc option) \<times> db" where
  "post db (EventEntity p) = create_event db p"
| "post db (CourseEntity p) = create_course db p"
| "post db (TimetableEntity p) = create_timetable db p"

datatype request =
    Post create_payload
  | Put string update_payload
  | Delete entity string
  | ListEvents "int option"
  | ListCourses "string option" "int option" "int option"
  | ListTimetable "string option" "int option" "string option" "int option"
  | Test environ

fun handle :: "db \<Rightarrow> request \<Rightarrow> db" where
  "handle db (Post q) = snd (post db q)"
| "handle db (Put ident p) = snd (put db ident p)"
| "handle db (Delete e ident) = snd (delete db e ident)"
| "handle db (ListEvents limit) = snd (list_events db limit)"
| "handle db (ListCourses semester year limit) = snd (list_courses db semester year limit)"
| "handle db (ListTimetable semester year day limit) = snd (list_timetable db semester year day limit)"
| "handle db (Test env) = snd (test_database env db)"

definition run :: "db \<Rightarrow> request list \<Rightarrow> db" where
  "run db rs = fold (\<lambda>r db. handle db r) rs db"

text \<open>
  The dict that an update handler hands to \<^verbatim>\<open>update_one\<close>: the non-null fields of the
  payload with the server's \<^verbatim>\<open>localTime\<close> under \<^verbatim>\<open>updated_at\<close>.
\<close>

definition stamped :: "store \<Rightarrow> doc \<Rightarrow> doc" where
  "stamped s dump = dict_set ''updated_at'' (dict_get (isMaster_reply s) ''localTime'') (non_null dump)"

text \<open>The identifiers of the records of a collection, in order.\<close>

definition ids :: "doc list \<Rightarrow> pyval option list" where
  "ids ds = map (\<lambda>d. map_of d ''_id'') ds"

text \<open>
  Every record of every collection carries an ObjectId under \<^verbatim>\<open>_id\<close>, and no two records of
  a collection carry the same.
\<close>

fun is_oid :: "pyval option \<Rightarrow> bool" where
  "is_oid (Some (VObjectId h)) = True"
| "is_oid x = False"

definition unique_ids :: "store \<Rightarrow> bool" where
  "unique_ids s \<longleftrightarrow>
     list_all (\<lambda>name. distinct (ids (coll s name)) \<and> list_all is_oid (ids (coll s name)))
       (map fst (colls s))"

text \<open>
  How the identifiers of a collection may differ after a request: not at all, or one of them
  is gone, or one ObjectId that was not there has been added at the end.
\<close>

definition ids_kept :: "pyval option list \<Rightarrow> pyval option list \<Rightarrow> bool" where
  "ids_kept old new \<longleftrightarrow>
     new = old
     \<or> list_ex (\<lambda>i. new = take i old @ drop (Suc i) old) [0..<length old]
     \<or> (new \<noteq> [] \<and> butlast new = old \<and> last new \<notin> set old \<and> is_oid (last new))"

section \<open>The serialization contract in the spec's words\<close>

text \<open>
  The value-wise effect of one pass of the loop of \<open>serialize_doc\<close>.
\<close>

definition json_safe :: "pyval \<Rightarrow> pyval" where
  "json_safe v = (if has_isoformat v then VStr (isoformat v) else v)"

text \<open>
  What the spec asks of one value, read off the text and not off the code: a text renders a
  date when it has the ISO 8601 form \<^verbatim>\<open>YYYY-MM-DD\<close> and its three decimal numbers are the
  year, the month and the day; it renders a date-time when it is such a date, the letter
  \<^verbatim>\<open>T\<close>, and \<^verbatim>\<open>HH:MM:SS\<close> holding the hour, the minute and the second, followed by a point and
  six digits holding the microseconds unless these are zero. Any other value is rendered by
  itself.
\<close>

definition is_digit :: "char \<Rightarrow> bool" where
  "is_digit c \<longleftrightarrow> c \<in> set ''0123456789''"

definition digit_val :: "char \<Rightarrow> nat" where
  "digit_val c = of_char c - 48"

definition dec :: "string \<Rightarrow> nat" where
  "dec s = foldl (\<lambda>n c. 10 * n + digit_val c) 0 s"

definition number :: "string \<Rightarrow> nat \<Rightarrow> bool" where
  \<comment> \<open>\<open>s\<close> consists of decimal digits that read \<open>n\<close>\<close>
  "number s n \<longleftrightarrow> list_all is_digit s \<and> dec s = n"

definition reads_as_date :: "string \<Rightarrow> nat \<Rightarrow> nat \<Rightarrow> nat \<Rightarrow> bool" where
  "reads_as_date s y m d \<longleftrightarrow>
     length s = 10 \<and> number (take 4 s) y \<and> s ! 4 = CHR ''-''
     \<and> number (take 2 (drop 5 s)) m \<and> s ! 7 = CHR ''-'' \<and> number (drop 8 s) d"

definition reads_as_time :: "string \<Rightarrow> nat \<Rightarrow> nat \<Rightarrow> nat \<Rightarrow> nat \<Rightarrow> bool" where
  "reads_as_time s h mi sec us \<longleftrightarrow>
     number (take 2 s) h \<and> s ! 2 = CHR '':'' \<and> number (take 2 (drop 3 s)) mi
     \<and> s ! 5 = CHR '':'' \<and> number (take 2 (drop 6 s)) sec
     \<and> (if us = 0 then length s = 8
         else length s = 15 \<and> s ! 8 = CHR ''.'' \<and> number (drop 9 s) us)"

fun rendered :: "pyval \<Rightarrow> pyval \<Rightarrow> bool" where
  "rendered (VDate y m d) r = (case r of VStr s \<Rightarrow> reads_as_date s y m d | _ \<Rightarrow> False)"
| "rendered (VDateTime y m d h mi sec us) r =
     (case r of
        VStr s \<Rightarrow> reads_as_date (take 10 s) y m d \<and> s ! 10 = CHR ''T''
                  \<and> reads_as_time (drop 11 s) h mi sec us
      | _ \<Rightarrow> False)"
| "rendered v r = (r = v)"

text \<open>
  The ranges that Python's \<^verbatim>\<open>date\<close> and \<^verbatim>\<open>datetime\<close> types guarantee for their fields.
\<close>

fun py_valid :: "pyval \<Rightarrow> bool" where
  "py_valid (VDate y m d) = (1 \<le> y \<and> y \<le> 9999 \<and> 1 \<le> m \<and> m \<le> 12 \<and> 1 \<le> d \<and> d \<le> 31)"
| "py_valid (VDateTime y m d h mi sec us) =
     (1 \<le> y \<and> y \<le> 9999 \<and> 1 \<le> m \<and> m \<le> 12 \<and> 1 \<le> d \<and> d \<le> 31
      \<and> h < 24 \<and> mi < 60 \<and> sec < 60 \<and> us < 1000000)"
| "py_valid v = True"

definition valid_values :: "doc \<Rightarrow> bool" where
  "valid_values d \<longleftrightarrow> list_all (\<lambda>kv. py_valid (snd kv)) d"

section \<open>Example data\<close>

definition example_id :: string where
  "example_id = ''64b7f0c2a1d3e4f5a6b7c8d9''"

definition example_event :: doc where
  "example_event =
     [(''_id'', VObjectId ''64b7f0c2a1d3e4f5a6b7c8d9''), (''title'', VStr ''Open Day''),
      (''description'', VNone), (''date'', VDateTime 2025 3 1 0 0 0 0), (''time'', VNone),
      (''location'', VNone), (''audience'', VStr ''Students''), (''link'', VNone)]"

definition example_course :: doc where
  "example_course =
     [(''_id'', VObjectId ''64b7f0c2a1d3e4f5a6b7c8d9''), (''code'', VStr ''GYD101''),
      (''title'', VStr ''Gender Studies''), (''semester'', VStr ''Fall''), (''year'', VInt 2025),
      (''lecturer'', VNone), (''credits'', VInt 3), (''description'', VNone)]"

definition example_slot :: doc where
  "example_slot =
     [(''_id'', VObjectId ''64b7f0c2a1d3e4f5a6b7c8d9''), (''semester'', VStr ''Fall''),
      (''year'', VInt 2025), (''day'', VStr ''Monday''), (''start_time'', VStr ''09:00''),
      (''end_time'', VStr ''10:30''), (''course_code'', VStr ''GYD101''), (''venue'', VNone),
      (''lecturer'', VNone), (''notes'', VNone)]"

definition example_store :: store where
  "example_store =
     \<lparr>colls = [(''event'', [example_event]), (''course'', [example_course]),
               (''timetable'', [example_slot])],
      isMaster_reply = [(''ismaster'', VBool True), (''localTime'', VDateTime 2025 3 2 10 30 0 123000)],
      fault = None, oplog = [],
      oid_gen = (\<lambda>n. ''64b7f0c2a1d3e4f5a6b7c8d'' @ [digit_char n]), oid_counter = 0\<rparr>"

definition location_only :: EventUpdate where
  "location_only = \<lparr>eu_title = None, eu_description = None, eu_date = None, eu_time = None,
     eu_location = Some ''Main Hall'', eu_audience = None, eu_link = None\<rparr>"

definition all_null :: EventUpdate where
  "all_null = \<lparr>eu_title = None, eu_description = None, eu_date = None, eu_time = None,
     eu_location = None, eu_audience = None, eu_link = None\<rparr>"


definition bad_course :: CourseUpdate where
  "bad_course = \<lparr>cu_code = None, cu_title = None, cu_semester = Some ''Winter'', cu_year = Some 1999,
     cu_lecturer = None, cu_credits = Some 99, cu_description = None\<rparr>"

definition bad_slot :: TimetableUpdate where
  "bad_slot = \<lparr>tu_semester = Some ''Winter'', tu_year = Some 2101, tu_day = Some ''Sunday'',
     tu_start_time = None, tu_end_time = None, tu_course_code = None, tu_venue = None,
     tu_lecturer = None, tu_notes = None\<rparr>"

definition course_input :: CourseInput where
  "course_input = \<lparr>ci_code = Some ''GYD101'', ci_title = Some ''Gender Studies'',
     ci_semester = Some ''Fall'', ci_year = Some 2025, ci_lecturer = None, ci_credits = None,
     ci_description = None\<rparr>"

definition slot_input :: TimetableInput where
  "slot_input = \<lparr>ti_semester = Some ''Fall'', ti_year = Some 2025, ti_day = Some ''Monday'',
     ti_start_time = Some ''09:00'', ti_end_time = Some ''10:30'', ti_course_code = Some ''GYD101'',
     ti_venue = None, ti_lecturer = None, ti_notes = None\<rparr>"

definition env_unset :: environ where
  "env_unset = \<lparr>DATABASE_URL = None, DATABASE_NAME = Some []\<rparr>"

definition env_set :: environ where
  "env_set = \<lparr>DATABASE_URL = Some ''mongodb://localhost:27017'', DATABASE_NAME = Some ''gyd''\<rparr>"


definition example_record :: doc where
  "example_record =
     [(''_id'', VObjectId ''64b7f0c2a1d3e4f5a6b7c8d9''), (''title'', VStr ''Open Day''),
      (''date'', VDate 2025 3 1), (''created_at'', VDateTime 2025 3 2 10 30 0 123000),
      (''updated_at'', VDateTime 2025 12 31 23 59 59 0), (''year'', VInt 2025), (''link'', VNone)]"

definition example_heap :: heap where
  "example_heap = \<lparr>cells = (\<lambda>a. if a = 0 then example_record else []), next_free = 1\<rparr>"

definition new_course :: Course where
  "new_course = \<lparr>c_code = ''GYD102'', c_title = ''Youth Policy'', c_semester = Spring, c_year = 2026,
     c_lecturer = None, c_credits = Some 3, c_description = None\<rparr>"

definition example_requests :: "request list" where
  "example_requests =
     [Post (CourseEntity new_course), Put example_id (CoursePayload bad_course),
      Delete Course example_id, ListCourses None None None]"

definition spaced_id :: string where
  "spaced_id = ''64 b7 f0 c2 a1 d3 e4 f5 ''"

definition slow_store :: store where
  "slow_store = example_store\<lparr>fault := Some
     (''localhost:27017: [Errno 111] Connexion refus'' @ [CHR 0xC3, CHR 0xA9]
      @ ''e (configured timeouts: socketTimeoutMS: 20000.0ms, connectTimeoutMS: 20000.0ms)'')\<rparr>"

definition empty_store :: store where
  "empty_store = example_store\<lparr>colls := []\<rparr>"

section \<open>Dictionaries and the store operations\<close>

lemma map_of_dict_set: "map_of (dict_set k v d) = (map_of d)(k \<mapsto> v)"
  by (simp add: dict_set_def update_conv')

lemma keys_dict_set: "fst ` set (dict_set k v d) = insert k (fst ` set d)"
  by (simp add: dict_set_def dom_update)

lemma map_of_apply_set_other:
  "k \<notin> fst ` set data \<Longrightarrow> map_of (apply_set data d) k = map_of d k"
  unfolding apply_set_def
  by (induction data arbitrary: d) (auto simp: map_of_dict_set)

lemma map_of_apply_set_last:
  "map_of (apply_set (data @ [(k, v)]) d) k = Some v"
  unfolding apply_set_def by (simp add: map_of_dict_set)

lemma update_first_count: "snd (update_first P f ds) \<le> 1"
  by (induction ds) (auto split: prod.splits)

lemma update_first_length: "length (fst (update_first P f ds)) = length ds"
  by (induction ds) (auto split: prod.splits)

lemma update_first_none:
  "\<forall>d \<in> set ds. \<not> P d \<Longrightarrow> update_first P f ds = (ds, 0)"
  by (induction ds) auto

lemma update_first_zero:
  "update_first P f ds = (ds', 0) \<Longrightarrow> ds' = ds \<and> (\<forall>d \<in> set ds. \<not> P d)"
  by (induction ds arbitrary: ds') (auto split: prod.splits if_splits)

lemma update_first_hit:
  "update_first P f ds = (ds', n) \<Longrightarrow> n \<noteq> 0 \<Longrightarrow>
     \<exists>i < length ds. P (ds ! i) \<and> ds' = ds[i := f (ds ! i)] \<and> n = 1"
proof (induction ds arbitrary: ds' n)
  case Nil
  then show ?case by simp
next
  case (Cons d ds)
  show ?case
  proof (cases "P d")
    case True
    with Cons.prems have "ds' = (d # ds)[0 := f ((d # ds) ! 0)]" "n = 1" by auto
    with True show ?thesis by (intro exI[of _ 0]) simp
  next
    case False
    obtain es m where um: "update_first P f ds = (es, m)" by (cases "update_first P f ds")
    with False Cons.prems have eq: "ds' = d # es" "m = n" by auto
    from Cons.IH[OF um] eq Cons.prems(2)
    obtain i where "i < length ds" "P (ds ! i)" "es = ds[i := f (ds ! i)]" "m = 1" by auto
    with eq show ?thesis by (intro exI[of _ "Suc i"]) simp
  qed
qed

lemma delete_first_none:
  "\<forall>d \<in> set ds. \<not> P d \<Longrightarrow> delete_first P ds = (ds, 0)"
  by (induction ds) auto

lemma coll_update: "coll (s\<lparr>colls := AList.update name ds (colls s)\<rparr>) c = (if c = name then ds else coll s c)"
  by (simp add: coll_def update_conv')

lemma coll_log_op [simp]: "coll (log_op op s) c = coll s c"
  by (simp add: coll_def log_op_def)

lemma update_handler_success:
  assumes "update_handler name m1 m2 db ident dump = (Inr r, db')"
  shows "\<exists>s s' oid i. db = Some s \<and> db' = Some s' \<and> fault s = None \<and> ObjectId ident = Some oid
     \<and> non_null dump \<noteq> []
     \<and> i < length (coll s name) \<and> has_id oid (coll s name ! i)
     \<and> coll s' name = (coll s name)[i := apply_set (stamped s dump) (coll s name ! i)]
     \<and> (\<forall>c. c \<noteq> name \<longrightarrow> coll s' c = coll s c)"
proof -
  from assms obtain s where s: "db = Some s"
    by (cases db) (auto simp: update_handler_def ensure_db_available_def)
  from assms s obtain oid where oid: "ObjectId ident = Some oid"
    by (cases "ObjectId ident") (auto simp: update_handler_def ensure_db_available_def)
  from assms s oid have ne: "non_null dump \<noteq> []"
    by (auto simp: update_handler_def ensure_db_available_def Let_def split: if_splits)
  from assms s oid ne have flt: "fault s = None"
    by (cases "fault s") (auto simp: update_handler_def ensure_db_available_def Let_def command_isMaster_def)
  let ?s1 = "log_op (Command ''isMaster'') s"
  obtain ds' n where uf: "update_first (has_id oid) (apply_set (stamped s dump)) (coll s name) = (ds', n)"
    by (cases "update_first (has_id oid) (apply_set (stamped s dump)) (coll s name)")
  have f1: "fault ?s1 = None" using flt by (simp add: log_op_def)
  from assms s oid ne flt uf f1 have n0: "n \<noteq> 0"
    by (auto simp: update_handler_def ensure_db_available_def Let_def command_isMaster_def
        update_one_def stamped_def split: if_splits)
  let ?s2 = "log_op (UpdateOne name oid) (?s1\<lparr>colls := AList.update name ds' (colls ?s1)\<rparr>)"
  have f2: "fault ?s2 = None" using flt by (simp add: log_op_def)
  from assms s oid ne flt uf f1 n0 f2 have db': "db' = Some (log_op (FindOne name oid) ?s2)"
    by (auto simp: update_handler_def ensure_db_available_def Let_def command_isMaster_def
        update_one_def find_one_def stamped_def split: if_splits)
  from update_first_hit[OF uf n0] obtain i where i: "i < length (coll s name)"
    "has_id oid (coll s name ! i)" "ds' = (coll s name)[i := apply_set (stamped s dump) (coll s name ! i)]"
    by auto
  have c: "\<And>c. coll (log_op (FindOne name oid) ?s2) c = (if c = name then ds' else coll s c)"
    by (simp add: coll_def log_op_def update_conv')
  show ?thesis using s db' flt oid ne i c by auto
qed

lemma put_unfold:
  "put db ident p = update_handler (collection_name (payload_entity p))
      (invalid_id_detail (payload_entity p)) (not_found_detail (payload_entity p)) db ident (model_dump p)"
  by (cases p) (simp_all add: update_event_def update_course_def update_timetable_def)

lemma delete_unfold:
  "delete db e ident = delete_handler (collection_name e) (invalid_id_detail e) (not_found_detail e) db ident"
  by (cases e) (simp_all add: delete_event_def delete_course_def delete_timetable_def)

lemma model_dump_keys:
  "fst ` set (model_dump p) \<subseteq> {''title'', ''description'', ''date'', ''time'', ''location'', ''audience'',
     ''link'', ''code'', ''semester'', ''year'', ''lecturer'', ''credits'', ''day'', ''start_time'',
     ''end_time'', ''course_code'', ''venue'', ''notes''}"
  by (cases p) (simp_all add: EventUpdate_dump_def CourseUpdate_dump_def TimetableUpdate_dump_def)

lemma non_null_keys: "fst ` set (non_null dump) \<subseteq> fst ` set dump"
  by (auto simp: non_null_def)

lemma model_dump_no_updated_at: "''updated_at'' \<notin> fst ` set (model_dump p)"
  using model_dump_keys[of p] by auto

lemma model_dump_no_id: "''_id'' \<notin> fst ` set (model_dump p)"
  using model_dump_keys[of p] by auto

lemma update_handler_hit:
  assumes "fault s = None" "ObjectId ident = Some oid" "non_null dump \<noteq> []"
    and "\<exists>d \<in> set (coll s name). has_id oid d"
  shows "\<exists>r s'. update_handler name m1 m2 (Some s) ident dump = (Inr r, Some s')"
proof -
  let ?s1 = "log_op (Command ''isMaster'') s"
  obtain ds' n where uf: "update_first (has_id oid) (apply_set (stamped s dump)) (coll s name) = (ds', n)"
    by (cases "update_first (has_id oid) (apply_set (stamped s dump)) (coll s name)")
  have n0: "n \<noteq> 0"
  proof
    assume "n = 0"
    with uf have "\<forall>d \<in> set (coll s name). \<not> has_id oid d"
      using update_first_zero by blast
    with assms(4) show False by blast
  qed
  have f1: "fault ?s1 = None" using assms(1) by (simp add: log_op_def)
  let ?s2 = "log_op (UpdateOne name oid) (?s1\<lparr>colls := AList.update name ds' (colls ?s1)\<rparr>)"
  have f2: "fault ?s2 = None" using assms(1) by (simp add: log_op_def)
  show ?thesis using assms(1-3) uf n0 f1 f2
    by (simp add: update_handler_def ensure_db_available_def Let_def command_isMaster_def
        update_one_def find_one_def stamped_def)
qed

lemma ObjectId_example: "ObjectId example_id = Some example_id"
  by (simp add: ObjectId_def py_len_def is_continuation_def example_id_def is_space_def is_hex_def
      lower_hex_def)

lemma update_handler_no_db:
  "update_handler name m1 m2 None ident dump = (Inl (HTTPException 500 db_unavailable), None)"
  by (simp add: update_handler_def ensure_db_available_def)

lemma delete_handler_no_db:
  "delete_handler name m1 m2 None ident = (Inl (HTTPException 500 db_unavailable), None)"
  by (simp add: delete_handler_def ensure_db_available_def)

lemma update_handler_bad_id:
  "ObjectId ident = None \<Longrightarrow>
   update_handler name m1 m2 (Some s) ident dump = (Inl (HTTPException 400 m1), Some s)"
  by (simp add: update_handler_def ensure_db_available_def)

lemma delete_handler_bad_id:
  "ObjectId ident = None \<Longrightarrow>
   delete_handler name m1 m2 (Some s) ident = (Inl (HTTPException 400 m1), Some s)"
  by (simp add: delete_handler_def ensure_db_available_def)

lemma update_handler_empty:
  "non_null dump = [] \<Longrightarrow> ObjectId ident = Some oid \<Longrightarrow>
   update_handler name m1 m2 (Some s) ident dump = (Inl (HTTPException 400 ''No fields to update''), Some s)"
  by (simp add: update_handler_def ensure_db_available_def)

lemma ObjectId_not_an_id: "ObjectId ''not-an-id'' = None"
  by (simp add: ObjectId_def py_len_def is_continuation_def)

lemma all_null_empty: "non_null (model_dump (EventPayload all_null)) = []"
  by (simp add: non_null_def EventUpdate_dump_def all_null_def opt_str_def)

lemma delete_first_zero:
  "delete_first P ds = (ds', 0) \<Longrightarrow> ds' = ds \<and> (\<forall>d \<in> set ds. \<not> P d)"
  by (induction ds arbitrary: ds') (auto split: prod.splits if_splits)

lemma delete_first_hit:
  "delete_first P ds = (ds', n) \<Longrightarrow> n \<noteq> 0 \<Longrightarrow>
     \<exists>i < length ds. P (ds ! i) \<and> ds' = take i ds @ drop (Suc i) ds \<and> n = 1"
proof (induction ds arbitrary: ds' n)
  case Nil
  then show ?case by simp
next
  case (Cons d ds)
  show ?case
  proof (cases "P d")
    case True
    with Cons.prems have "ds' = take 0 (d # ds) @ drop (Suc 0) (d # ds)" "n = 1" by auto
    with True show ?thesis by (intro exI[of _ 0]) simp
  next
    case False
    obtain es m where um: "delete_first P ds = (es, m)" by (cases "delete_first P ds")
    with False Cons.prems have eq: "ds' = d # es" "m = n" by auto
    from Cons.IH[OF um] eq Cons.prems(2)
    obtain i where "i < length ds" "P (ds ! i)" "es = take i ds @ drop (Suc i) ds" "m = 1" by auto
    with eq show ?thesis by (intro exI[of _ "Suc i"]) simp
  qed
qed

lemma update_one_miss:
  assumes "fault s = None" "\<forall>d \<in> set (coll s name). \<not> has_id oid d"
  shows "update_one name oid data s = (Inr 0, log_op (UpdateOne name oid) s)"
  using assms by (simp add: update_one_def update_first_none)

lemma delete_one_miss:
  assumes "fault s = None" "\<forall>d \<in> set (coll s name). \<not> has_id oid d"
  shows "delete_one name oid s = (Inr 0, log_op (DeleteOne name oid) s)"
  using assms by (simp add: delete_one_def delete_first_none)

lemma update_handler_miss:
  assumes "fault s = None" "ObjectId ident = Some oid" "non_null dump \<noteq> []"
    and "\<forall>d \<in> set (coll s name). \<not> has_id oid d"
  shows "update_handler name m1 m2 (Some s) ident dump =
     (Inl (HTTPException 404 m2), Some (log_op (UpdateOne name oid) (log_op (Command ''isMaster'') s)))"
proof -
  let ?s1 = "log_op (Command ''isMaster'') s"
  have f1: "fault ?s1 = None" using assms(1) by (simp add: log_op_def)
  have c1: "\<forall>d \<in> set (coll ?s1 name). \<not> has_id oid d" using assms(4) by simp
  show ?thesis using assms(1-3)
    by (simp add: update_handler_def ensure_db_available_def Let_def command_isMaster_def
        update_one_miss[OF f1 c1])
qed

lemma delete_handler_miss:
  assumes "fault s = None" "ObjectId ident = Some oid"
    and "\<forall>d \<in> set (coll s name). \<not> has_id oid d"
  shows "delete_handler name m1 m2 (Some s) ident =
     (Inl (HTTPException 404 m2), Some (log_op (DeleteOne name oid) s))"
  using assms(2) by (simp add: delete_handler_def ensure_db_available_def delete_one_miss[OF assms(1,3)])


lemma update_handler_effect:
  assumes "update_handler name m1 m2 (Some s) ident dump = (r, db')"
  shows "\<exists>s'. db' = Some s' \<and> (\<forall>c. c \<noteq> name \<longrightarrow> coll s' c = coll s c)
     \<and> (coll s' name = coll s name
        \<or> (\<exists>i < length (coll s name). coll s' name = (coll s name)[i := apply_set (stamped s dump) (coll s name ! i)]))"
proof (cases "ObjectId ident")
  case None
  with assms show ?thesis by (auto simp: update_handler_bad_id)
next
  case (Some oid)
  show ?thesis
  proof (cases "non_null dump = []")
    case True
    with assms Some show ?thesis by (auto simp: update_handler_empty)
  next
    case ne: False
    show ?thesis
    proof (cases "fault s")
      case (Some m)
      with assms \<open>ObjectId ident = Some oid\<close> ne
      have "db' = Some (log_op (Command ''isMaster'') s)"
        by (simp add: update_handler_def ensure_db_available_def Let_def command_isMaster_def)
      then show ?thesis by simp
    next
      case None
      show ?thesis
      proof (cases "\<exists>d \<in> set (coll s name). has_id oid d")
        case False
        then have "\<forall>d \<in> set (coll s name). \<not> has_id oid d" by blast
        from update_handler_miss[OF None \<open>ObjectId ident = Some oid\<close> ne this, of m1 m2] assms
        show ?thesis by auto
      next
        case True
        from update_handler_hit[OF None \<open>ObjectId ident = Some oid\<close> ne True, of m1 m2] assms
        obtain r0 where "update_handler name m1 m2 (Some s) ident dump = (Inr r0, db')" by auto
        from update_handler_success[OF this] show ?thesis by auto
      qed
    qed
  qed
qed

lemma delete_handler_effect:
  assumes "delete_handler name m1 m2 (Some s) ident = (r, db')"
  shows "\<exists>s'. db' = Some s' \<and> (\<forall>c. c \<noteq> name \<longrightarrow> coll s' c = coll s c)
     \<and> (coll s' name = coll s name
        \<or> (\<exists>i < length (coll s name). coll s' name = take i (coll s name) @ drop (Suc i) (coll s name)))"
proof (cases "ObjectId ident")
  case None
  with assms show ?thesis by (auto simp: delete_handler_bad_id)
next
  case (Some oid)
  show ?thesis
  proof (cases "fault s")
    case (Some m)
    with assms \<open>ObjectId ident = Some oid\<close>
    have "db' = Some (log_op (DeleteOne name oid) s)"
      by (simp add: delete_handler_def ensure_db_available_def delete_one_def)
    then show ?thesis by simp
  next
    case None
    obtain ds' n where df: "delete_first (has_id oid) (coll s name) = (ds', n)"
      by (cases "delete_first (has_id oid) (coll s name)")
    show ?thesis
    proof (cases "n = 0")
      case True
      with assms \<open>ObjectId ident = Some oid\<close> None df
      have "db' = Some (log_op (DeleteOne name oid) s)"
        by (simp add: delete_handler_def ensure_db_available_def delete_one_def)
      then show ?thesis by simp
    next
      case False
      with assms \<open>ObjectId ident = Some oid\<close> None df
      have db': "db' = Some (log_op (DeleteOne name oid) (s\<lparr>colls := AList.update name ds' (colls s)\<rparr>))"
        by (simp add: delete_handler_def ensure_db_available_def delete_one_def)
      from delete_first_hit[OF df False]
      obtain i where "i < length (coll s name)" "ds' = take i (coll s name) @ drop (Suc i) (coll s name)"
        by blast
      then show ?thesis unfolding db' by (auto simp: coll_update)
    qed
  qed
qed

lemma stamped_no_id: "''_id'' \<notin> fst ` set (stamped s (model_dump p))"
  using model_dump_no_id[of p] non_null_keys[of "model_dump p"]
  by (auto simp: stamped_def keys_dict_set)

lemma ids_update_nth:
  assumes "''_id'' \<notin> fst ` set data" "i < length ds"
  shows "ids (ds[i := apply_set data (ds ! i)]) = ids ds"
  using assms by (simp add: ids_def map_update map_of_apply_set_other list_update_same_conv)

lemma distinct_remove_nth: "distinct ys \<Longrightarrow> distinct (take i ys @ drop (Suc i) ys)"
  using set_take_disj_set_drop_if_distinct[of ys i "Suc i"] by simp

lemma ids_remove_nth: "ids (take i ds @ drop (Suc i) ds) = take i (ids ds) @ drop (Suc i) (ids ds)"
  by (simp add: ids_def take_map drop_map)

lemma put_ids:
  "\<exists>s'. snd (put (Some s) ident p) = Some s' \<and> (\<forall>c. ids (coll s' c) = ids (coll s c))"
proof -
  let ?n = "collection_name (payload_entity p)"
  obtain r db' where run: "put (Some s) ident p = (r, db')" by (cases "put (Some s) ident p")
  from update_handler_effect[OF run[unfolded put_unfold]]
  obtain s' where s': "db' = Some s'" "\<forall>c. c \<noteq> ?n \<longrightarrow> coll s' c = coll s c"
    "coll s' ?n = coll s ?n
      \<or> (\<exists>i < length (coll s ?n). coll s' ?n = (coll s ?n)[i := apply_set (stamped s (model_dump p)) (coll s ?n ! i)])"
    by blast
  have "ids (coll s' ?n) = ids (coll s ?n)"
    using s'(3) ids_update_nth[OF stamped_no_id] by auto
  with s'(2) have "\<forall>c. ids (coll s' c) = ids (coll s c)" by metis
  with s'(1) run show ?thesis by simp
qed

lemma delete_removes:
  "\<exists>s'. snd (delete (Some s) e ident) = Some s'
     \<and> (\<forall>c. coll s' c = coll s c
           \<or> (\<exists>i < length (coll s c). coll s' c = take i (coll s c) @ drop (Suc i) (coll s c)))"
proof -
  obtain r db' where run: "delete (Some s) e ident = (r, db')" by (cases "delete (Some s) e ident")
  from delete_handler_effect[OF run[unfolded delete_unfold]]
  obtain s' where s': "db' = Some s'" "\<forall>c. c \<noteq> collection_name e \<longrightarrow> coll s' c = coll s c"
    "coll s' (collection_name e) = coll s (collection_name e)
      \<or> (\<exists>i < length (coll s (collection_name e)).
            coll s' (collection_name e) = take i (coll s (collection_name e)) @ drop (Suc i) (coll s (collection_name e)))"
    by blast
  have "\<forall>c. coll s' c = coll s c
           \<or> (\<exists>i < length (coll s c). coll s' c = take i (coll s c) @ drop (Suc i) (coll s c))"
    using s'(2,3) by metis
  with s'(1) run show ?thesis by simp
qed

lemma update_handler_stores:
  assumes "fault s = None" "ObjectId ident = Some oid" "non_null dump \<noteq> []" "coll s name = [d]"
    and "has_id oid d"
  shows "\<exists>r s'. update_handler name m1 m2 (Some s) ident dump = (Inr r, Some s')
     \<and> coll s' name = [apply_set (stamped s dump) d]"
proof -
  have "\<exists>d \<in> set (coll s name). has_id oid d" using assms(4,5) by simp
  from update_handler_hit[OF assms(1-3) this, of m1 m2]
  obtain r s' where run: "update_handler name m1 m2 (Some s) ident dump = (Inr r, Some s')" by blast
  from update_handler_success[OF run] assms(4)
  have "coll s' name = [apply_set (stamped s dump) d]" by auto
  with run show ?thesis by blast
qed

lemma v_year_Some: "v_year (Some y) = (if 2000 \<le> y \<and> y \<le> 2100 then Some y else None)"
  by (simp add: v_year_def)

lemma validate_Course_year_None:
  "v_year (ci_year p) = None \<Longrightarrow>
   validate_Course p = Inl (ValidationError (Course_errors p)) \<and> ''year'' \<in> set (Course_errors p)"
  by (simp add: validate_Course_def Course_errors_def failed_def split: option.splits)

lemma validate_Timetable_year_None:
  "v_year (ti_year q) = None \<Longrightarrow>
   validate_Timetable q = Inl (ValidationError (Timetable_errors q)) \<and> ''year'' \<in> set (Timetable_errors q)"
  by (simp add: validate_Timetable_def Timetable_errors_def failed_def split: option.splits)

lemma validate_Course_year_bad:
  assumes "\<not> (2000 \<le> y \<and> y \<le> 2100)"
  shows "validate_Course (p\<lparr>ci_year := Some y\<rparr>) = Inl (ValidationError (Course_errors (p\<lparr>ci_year := Some y\<rparr>)))
   \<and> ''year'' \<in> set (Course_errors (p\<lparr>ci_year := Some y\<rparr>))"
proof -
  have "v_year (ci_year (p\<lparr>ci_year := Some y\<rparr>)) = None" using assms by (simp add: v_year_Some)
  then show ?thesis by (rule validate_Course_year_None)
qed

lemma validate_Timetable_year_bad:
  assumes "\<not> (2000 \<le> y \<and> y \<le> 2100)"
  shows "validate_Timetable (q\<lparr>ti_year := Some y\<rparr>) = Inl (ValidationError (Timetable_errors (q\<lparr>ti_year := Some y\<rparr>)))
   \<and> ''year'' \<in> set (Timetable_errors (q\<lparr>ti_year := Some y\<rparr>))"
proof -
  have "v_year (ti_year (q\<lparr>ti_year := Some y\<rparr>)) = None" using assms by (simp add: v_year_Some)
  then show ?thesis by (rule validate_Timetable_year_None)
qed

lemma validate_Course_year_ok:
  assumes "2000 \<le> y \<and> y \<le> 2100"
  shows "''year'' \<notin> set (Course_errors (p\<lparr>ci_year := Some y\<rparr>))
   \<and> (validate_Course p = Inr c \<longrightarrow> validate_Course (p\<lparr>ci_year := Some y\<rparr>) = Inr (c\<lparr>c_year := y\<rparr>))"
proof -
  have v: "v_year (Some y) = Some y" using assms by (simp add: v_year_Some)
  show ?thesis
    by (auto simp: validate_Course_def Course_errors_def v failed_def split: option.splits)
qed

lemma validate_Timetable_year_ok:
  assumes "2000 \<le> y \<and> y \<le> 2100"
  shows "''year'' \<notin> set (Timetable_errors (q\<lparr>ti_year := Some y\<rparr>))
   \<and> (validate_Timetable q = Inr t \<longrightarrow> validate_Timetable (q\<lparr>ti_year := Some y\<rparr>) = Inr (t\<lparr>t_year := y\<rparr>))"
proof -
  have v: "v_year (Some y) = Some y" using assms by (simp add: v_year_Some)
  show ?thesis
    by (auto simp: validate_Timetable_def Timetable_errors_def v failed_def split: option.splits)
qed

lemma course_input_valid:
  "validate_Course course_input = Inr \<lparr>c_code = ''GYD101'', c_title = ''Gender Studies'', c_semester = Fall,
     c_year = 2025, c_lecturer = None, c_credits = Some 3, c_description = None\<rparr>"
  by (simp add: validate_Course_def course_input_def v_semester_def Semester_of_def v_year_def v_credits_def)

lemma slot_input_valid:
  "validate_Timetable slot_input = Inr \<lparr>t_semester = Fall, t_year = 2025, t_day = Monday,
     t_start_time = ''09:00'', t_end_time = ''10:30'', t_course_code = ''GYD101'', t_venue = None,
     t_lecturer = None, t_notes = None\<rparr>"
  by (simp add: validate_Timetable_def slot_input_def v_semester_def Semester_of_def v_year_def
      v_day_def DayOfWeek_of_def)

lemma get_documents_ok:
  "fault s = None \<Longrightarrow>
   get_documents name query limit s
     = (Inr (cap limit (filter (matches query) (coll s name))), log_op (Find name) s)"
  by (simp add: get_documents_def)

lemma matches_Nil: "matches [] = (\<lambda>d. True)"
  by (simp add: matches_def fun_eq_iff)

lemma matches_semester_year:
  "matches [(''semester'', VStr sem), (''year'', VInt y)]
     = (\<lambda>d. map_of d ''semester'' = Some (VStr sem) \<and> map_of d ''year'' = Some (VInt y))"
  by (simp add: matches_def fun_eq_iff)

section \<open>The serialization loop\<close>

lemma update_past_prefix:
  "k \<notin> fst ` set ys \<Longrightarrow> AList.update k v (ys @ (k, v0) # zs) = ys @ (k, v) # zs"
  by (induction ys) auto

lemma iso_step_at:
  assumes "k \<notin> fst ` set ys"
  shows "iso_step (k, v) (ys @ (k, v) # zs) = ys @ (k, json_safe v) # zs"
  using assms by (simp add: iso_step_def json_safe_def dict_set_def update_past_prefix)

lemma fold_iso_step_gen:
  "distinct (map fst (ys @ xs)) \<Longrightarrow>
   fold iso_step xs (map (apsnd json_safe) ys @ xs) = map (apsnd json_safe) (ys @ xs)"
proof (induction xs arbitrary: ys)
  case Nil
  then show ?case by simp
next
  case (Cons kv xs)
  obtain k v where kv: "kv = (k, v)" by (cases kv)
  from Cons.prems kv have k: "k \<notin> fst ` set (map (apsnd json_safe) ys)" by force
  from Cons.prems kv have d: "distinct (map fst ((ys @ [(k, v)]) @ xs))" by simp
  have "fold iso_step (kv # xs) (map (apsnd json_safe) ys @ kv # xs)
      = fold iso_step xs (map (apsnd json_safe) (ys @ [(k, v)]) @ xs)"
    using iso_step_at[OF k] by (simp add: kv)
  also have "\<dots> = map (apsnd json_safe) ((ys @ [(k, v)]) @ xs)" by (rule Cons.IH[OF d])
  finally show ?case by (simp add: kv)
qed

lemma fold_iso_step:
  "wf_dict d \<Longrightarrow> fold iso_step d d = map (apsnd json_safe) d"
  using fold_iso_step_gen[of "[]" d] by (simp add: wf_dict_def)

lemma wf_rename_id: "wf_dict d \<Longrightarrow> wf_dict (rename_id d)"
  by (simp add: wf_dict_def rename_id_def dict_pop_def dict_set_def distinct_update distinct_delete)

lemma map_of_rename_id:
  "map_of (rename_id d) k =
     (case map_of d ''_id'' of
        None \<Rightarrow> map_of d k
      | Some v \<Rightarrow> if k = ''id'' then Some (VStr (py_str v))
                  else if k = ''_id'' then None else map_of d k)"
  by (auto simp: rename_id_def dict_contains_def dict_pop_def dict_set_def dict_get_def
      update_conv' delete_conv' split: option.splits)

lemma rename_id_fixed: "map_of d ''_id'' = None \<Longrightarrow> rename_id d = d"
  by (simp add: rename_id_def dict_contains_def)

lemma map_of_json_safe: "map_of (map (apsnd json_safe) d) k = map_option json_safe (map_of d k)"
  by (induction d) auto

lemma json_safe_idem: "json_safe (json_safe v) = json_safe v"
  by (cases v) (simp_all add: json_safe_def)

lemma apsnd_json_safe_idem: "apsnd json_safe (apsnd json_safe x) = apsnd json_safe x"
  by (cases x) (simp add: json_safe_idem)

lemma serialize_doc_eq:
  assumes "wf_dict d"
  shows "serialize_doc (Some d) = Some (map (apsnd json_safe) (rename_id d))"
proof (cases "d = []")
  case True
  then show ?thesis by (simp add: rename_id_def dict_contains_def)
next
  case False
  then show ?thesis by (simp add: Let_def fold_iso_step[OF wf_rename_id[OF assms]])
qed

lemma wf_json_safe: "wf_dict d \<Longrightarrow> wf_dict (map (apsnd json_safe) d)"
  by (simp add: wf_dict_def comp_def)

lemma serialize_doc_idem:
  assumes "wf_dict d"
  shows "serialize_doc (serialize_doc (Some d)) = serialize_doc (Some d)"
proof -
  let ?d' = "map (apsnd json_safe) (rename_id d)"
  have w: "wf_dict ?d'" using assms by (simp add: wf_json_safe wf_rename_id)
  have "map_of ?d' ''_id'' = None"
    by (simp add: map_of_json_safe map_of_rename_id split: option.splits)
  then have r: "rename_id ?d' = ?d'" by (rule rename_id_fixed)
  have "serialize_doc (Some ?d') = Some (map (apsnd json_safe) ?d')"
    using serialize_doc_eq[OF w] by (simp only: r)
  also have "\<dots> = Some ?d'" by (simp add: apsnd_json_safe_idem)
  finally show ?thesis by (simp only: serialize_doc_eq[OF assms])
qed

lemma is_digit_digit_char [simp]: "is_digit (digit_char n)"
  unfolding is_digit_def digit_char_def by (rule nth_mem) simp

lemma fold_heap_mutate:
  "fold (\<lambda>kv. heap_mutate c (f kv)) items h = h\<lparr>cells := (cells h)(c := fold f items (cells h c))\<rparr>"
  by (induction items arbitrary: h) (simp_all add: heap_mutate_def)

lemma serialize_doc_heap_result:
  assumes "a < next_free h"
  shows "case serialize_doc_heap a h of (c, h') \<Rightarrow>
           Some (cells h' c) = serialize_doc (Some (cells h a))
           \<and> (\<forall>b < next_free h. cells h' b = cells h b)"
proof (cases "cells h a = []")
  case True
  then show ?thesis by (simp add: serialize_doc_heap_def)
next
  case False
  let ?c = "next_free h"
  have r: "(if dict_contains ''_id'' (cells h a) then rename_id (cells h a) else cells h a) = rename_id (cells h a)"
    by (simp add: rename_id_def)
  show ?thesis using False assms
    by (auto simp: serialize_doc_heap_def heap_copy_def Let_def fold_heap_mutate heap_mutate_def r
        rename_id_def)
qed

lemma digit_val_digit_char: "digit_val (digit_char n) = n mod 10"
proof -
  have "n mod 10 < 10" by simp
  then have "n mod 10 = 0 \<or> n mod 10 = 1 \<or> n mod 10 = 2 \<or> n mod 10 = 3 \<or> n mod 10 = 4
      \<or> n mod 10 = 5 \<or> n mod 10 = 6 \<or> n mod 10 = 7 \<or> n mod 10 = 8 \<or> n mod 10 = 9" by arith
  then show ?thesis
    by (elim disjE) (simp_all add: digit_val_def digit_char_def)
qed

lemma number_digit: "n < 10 \<Longrightarrow> number [digit_char n] n"
  by (simp add: number_def dec_def digit_val_digit_char)

lemma number_snoc: "number s (n div 10) \<Longrightarrow> number (s @ [digit_char n]) n"
  by (simp add: number_def dec_def digit_val_digit_char)

lemma div_10_10: "n div 10 div 10 = n div (100::nat)"
  and div_100_10: "n div 100 div 10 = n div (1000::nat)"
  and div_1000_10: "n div 1000 div 10 = n div (10000::nat)"
  and div_10000_10: "n div 10000 div 10 = n div (100000::nat)"
  by (simp_all add: div_mult2_eq[symmetric])

lemma number_pad2:
  assumes "n < 100"
  shows "number (pad2 n) n"
proof -
  have "n div 10 < 10" using assms by simp
  then have "number [digit_char (n div 10)] (n div 10)" by (rule number_digit)
  then have "number ([digit_char (n div 10)] @ [digit_char n]) n" by (rule number_snoc)
  then show ?thesis by (simp add: pad2_def)
qed

lemma number_pad4:
  assumes "n < 10000"
  shows "number (pad4 n) n"
proof -
  have "n div 1000 < 10" using assms by simp
  then have "number [digit_char (n div 1000)] (n div 100 div 10)"
    by (simp add: number_digit div_100_10)
  then have "number ([digit_char (n div 1000)] @ [digit_char (n div 100)]) (n div 10 div 10)"
    unfolding div_10_10 by (rule number_snoc)
  then have "number (([digit_char (n div 1000)] @ [digit_char (n div 100)]) @ [digit_char (n div 10)]) (n div 10)"
    by (rule number_snoc)
  then have "number ((([digit_char (n div 1000)] @ [digit_char (n div 100)]) @ [digit_char (n div 10)])
      @ [digit_char n]) n"
    by (rule number_snoc)
  then show ?thesis by (simp add: pad4_def)
qed

lemma number_pad6:
  assumes "n < 1000000"
  shows "number (pad6 n) n"
proof -
  have "n div 100000 < 10" using assms by simp
  then have "number [digit_char (n div 100000)] (n div 10000 div 10)"
    by (simp add: number_digit div_10000_10)
  then have "number ([digit_char (n div 100000)] @ [digit_char (n div 10000)]) (n div 1000 div 10)"
    unfolding div_1000_10 by (rule number_snoc)
  then have "number (([digit_char (n div 100000)] @ [digit_char (n div 10000)]) @ [digit_char (n div 1000)])
      (n div 100 div 10)"
    unfolding div_100_10 by (rule number_snoc)
  then have "number ((([digit_char (n div 100000)] @ [digit_char (n div 10000)]) @ [digit_char (n div 1000)])
      @ [digit_char (n div 100)]) (n div 10 div 10)"
    unfolding div_10_10 by (rule number_snoc)
  then have "number (((([digit_char (n div 100000)] @ [digit_char (n div 10000)]) @ [digit_char (n div 1000)])
      @ [digit_char (n div 100)]) @ [digit_char (n div 10)]) (n div 10)"
    by (rule number_snoc)
  then have "number ((((([digit_char (n div 100000)] @ [digit_char (n div 10000)]) @ [digit_char (n div 1000)])
      @ [digit_char (n div 100)]) @ [digit_char (n div 10)]) @ [digit_char n]) n"
    by (rule number_snoc)
  then show ?thesis by (simp add: pad6_def)
qed

lemma length_pad [simp]: "length (pad2 n) = 2" "length (pad4 n) = 4" "length (pad6 n) = 6"
  by (simp_all add: pad2_def pad4_def pad6_def)

lemma length_iso_date: "length (iso_date y m d) = 10"
  by (simp add: iso_date_def)

lemma reads_as_date_iso_date:
  assumes "y < 10000" "m < 100" "d < 100"
  shows "reads_as_date (iso_date y m d) y m d"
  using number_pad4[OF assms(1)] number_pad2[OF assms(2)] number_pad2[OF assms(3)]
  by (simp add: reads_as_date_def iso_date_def nth_append)

lemma reads_as_time_iso_time:
  assumes "h < 100" "mi < 100" "s < 100" "us < 1000000"
  shows "reads_as_time (iso_time h mi s us) h mi s us"
  using number_pad2[OF assms(1)] number_pad2[OF assms(2)] number_pad2[OF assms(3)]
    number_pad6[OF assms(4)]
  by (simp add: reads_as_time_def iso_time_def nth_append)

lemma rendered_json_safe: "py_valid v \<Longrightarrow> rendered v (json_safe v)"
proof (cases v)
  case (VDate y m d)
  assume "py_valid v"
  with VDate have "y < 10000" "m < 100" "d < 100" by simp_all
  from reads_as_date_iso_date[OF this] VDate show ?thesis by (simp add: json_safe_def)
next
  case (VDateTime y m d h mi s us)
  assume "py_valid v"
  with VDateTime have r: "y < 10000" "m < 100" "d < 100" and t: "h < 100" "mi < 100" "s < 100" "us < 1000000"
    by simp_all
  have "take 10 (iso_date y m d @ ''T'' @ iso_time h mi s us) = iso_date y m d"
    by (simp add: length_iso_date)
  moreover have "(iso_date y m d @ ''T'' @ iso_time h mi s us) ! 10 = CHR ''T''"
    by (simp add: nth_append length_iso_date)
  moreover have "drop 11 (iso_date y m d @ ''T'' @ iso_time h mi s us) = iso_time h mi s us"
    by (simp add: length_iso_date)
  ultimately show ?thesis
    using VDateTime reads_as_date_iso_date[OF r] reads_as_time_iso_time[OF t]
    by (simp add: json_safe_def)
qed (simp_all add: json_safe_def)

section \<open>Creation and the identifier invariant\<close>

lemma coll_oid_counter [simp]: "coll (s\<lparr>oid_counter := n\<rparr>) c = coll s c"
  by (simp add: coll_def)

lemma colls_log_op [simp]: "colls (log_op op s) = colls s"
  by (simp add: log_op_def)

lemma fault_log_op [simp]: "fault (log_op op s) = fault s"
  by (simp add: log_op_def)

lemma coll_append:
  "coll (s\<lparr>colls := AList.update name ds (colls t)\<rparr>) c = (if c = name then ds else coll t c)"
  by (simp add: coll_def update_conv')

lemma insert_one_effect:
  assumes "insert_one name entity s = (r, s')" and "''_id'' \<notin> fst ` set entity"
  shows "(\<forall>c. c \<noteq> name \<longrightarrow> coll s' c = coll s c)
     \<and> (coll s' name = coll s name
        \<or> (coll s' name = coll s name @ [dict_set ''_id'' (VObjectId (oid_gen s (oid_counter s))) entity]
           \<and> Some (VObjectId (oid_gen s (oid_counter s))) \<notin> set (ids (coll s name))))"
proof -
  have nc: "\<not> dict_contains ''_id'' entity"
    using assms(2) by (simp add: dict_contains_def map_of_eq_None_iff)
  let ?doc = "dict_set ''_id'' (VObjectId (oid_gen s (oid_counter s))) entity"
  have m: "map_of ?doc ''_id'' = Some (VObjectId (oid_gen s (oid_counter s)))"
    by (simp add: map_of_dict_set)
  show ?thesis
  proof (cases "fault s")
    case (Some msg)
    with assms(1) show ?thesis by (auto simp: insert_one_def Let_def)
  next
    case None
    show ?thesis
    proof (cases "list_ex (\<lambda>d. map_of d ''_id'' = map_of ?doc ''_id'') (coll s name)")
      case True
      with assms(1) None nc show ?thesis by (auto simp: insert_one_def Let_def)
    next
      case False
      then have "Some (VObjectId (oid_gen s (oid_counter s))) \<notin> set (ids (coll s name))"
        by (auto simp: m ids_def list_ex_iff)
      with assms(1) None nc False show ?thesis
        by (auto simp: insert_one_def Let_def coll_append)
    qed
  qed
qed

lemma find_one_store: "snd (find_one name oid s) = log_op (FindOne name oid) s"
  by (simp add: find_one_def split: option.splits)

lemma entity_dump_no_id: "''_id'' \<notin> fst ` set (entity_dump q)"
  by (cases q) (simp_all add: Event_dump_def Course_dump_def Timetable_dump_def)

lemma post_unfold:
  "post db q = create_handler (collection_name (created_entity q)) db (entity_dump q)"
  by (cases q) (simp_all add: create_event_def create_course_def create_timetable_def)

lemma create_handler_store:
  assumes "create_handler name (Some s) entity = (r, db')" and "insert_one name entity s = (r1, s1)"
  shows "\<exists>s'. db' = Some s' \<and> (\<forall>c. coll s' c = coll s1 c)"
proof (cases r1)
  case (Inl err)
  with assms show ?thesis
    by (auto simp: create_handler_def ensure_db_available_def create_document_def)
next
  case (Inr v)
  show ?thesis
  proof (cases "ObjectId (py_str v)")
    case None
    with assms Inr show ?thesis
      by (auto simp: create_handler_def ensure_db_available_def create_document_def)
  next
    case (Some oid)
    obtain r2 s2 where f: "find_one name oid s1 = (r2, s2)" by (cases "find_one name oid s1")
    with find_one_store[of name oid s1] have s2: "s2 = log_op (FindOne name oid) s1" by simp
    from assms Inr Some f have "db' = Some s2"
      by (cases r2) (auto simp: create_handler_def ensure_db_available_def create_document_def)
    with s2 show ?thesis by simp
  qed
qed

lemma create_handler_effect:
  assumes "create_handler name (Some s) entity = (r, db')" and "''_id'' \<notin> fst ` set entity"
  shows "\<exists>s'. db' = Some s' \<and> (\<forall>c. c \<noteq> name \<longrightarrow> coll s' c = coll s c)
     \<and> (coll s' name = coll s name
        \<or> (coll s' name = coll s name @ [dict_set ''_id'' (VObjectId (oid_gen s (oid_counter s))) entity]
           \<and> Some (VObjectId (oid_gen s (oid_counter s))) \<notin> set (ids (coll s name))))"
proof -
  obtain r1 s1 where i: "insert_one name entity s = (r1, s1)" by (cases "insert_one name entity s")
  from create_handler_store[OF assms(1) i] insert_one_effect[OF i assms(2)]
  show ?thesis by auto
qed

lemma insert_one_ok:
  assumes "fault s = None" and "''_id'' \<notin> fst ` set entity"
    and "Some (VObjectId (oid_gen s (oid_counter s))) \<notin> set (ids (coll s name))"
  shows "\<exists>s1. insert_one name entity s = (Inr (VObjectId (oid_gen s (oid_counter s))), s1)
     \<and> coll s1 name = coll s name @ [dict_set ''_id'' (VObjectId (oid_gen s (oid_counter s))) entity]"
proof -
  have nc: "\<not> dict_contains ''_id'' entity"
    using assms(2) by (simp add: dict_contains_def map_of_eq_None_iff)
  let ?doc = "dict_set ''_id'' (VObjectId (oid_gen s (oid_counter s))) entity"
  have m: "map_of ?doc ''_id'' = Some (VObjectId (oid_gen s (oid_counter s)))"
    by (simp add: map_of_dict_set)
  have "\<not> list_ex (\<lambda>d. map_of d ''_id'' = map_of ?doc ''_id'') (coll s name)"
    using assms(3) by (force simp: m ids_def list_ex_iff)
  then show ?thesis using assms(1) nc
    by (simp add: insert_one_def Let_def coll_append dict_get_def m)
qed

lemma post_ok:
  assumes "fault s = None"
    and "Some (VObjectId (oid_gen s (oid_counter s))) \<notin> set (ids (coll s (collection_name (created_entity q))))"
  shows "\<exists>s'. handle (Some s) (Post q) = Some s'
     \<and> coll s' (collection_name (created_entity q))
         = coll s (collection_name (created_entity q))
           @ [dict_set ''_id'' (VObjectId (oid_gen s (oid_counter s))) (entity_dump q)]"
proof -
  let ?n = "collection_name (created_entity q)"
  from insert_one_ok[OF assms(1) entity_dump_no_id assms(2)]
  obtain s1 where i: "insert_one ?n (entity_dump q) s = (Inr (VObjectId (oid_gen s (oid_counter s))), s1)"
    and c: "coll s1 ?n = coll s ?n @ [dict_set ''_id'' (VObjectId (oid_gen s (oid_counter s))) (entity_dump q)]"
    by blast
  obtain r db' where run: "post (Some s) q = (r, db')" by (cases "post (Some s) q")
  from create_handler_store[OF run[unfolded post_unfold] i]
  obtain s' where "db' = Some s'" "\<forall>c. coll s' c = coll s1 c" by blast
  with run c show ?thesis by simp
qed

lemma get_documents_store: "snd (get_documents name query limit s) = log_op (Find name) s"
  by (simp add: get_documents_def split: option.splits)

lemma list_events_store: "snd (list_events (Some s) limit) = Some (log_op (Find ''event'') s)"
  using get_documents_store[of "''event''" "[]" limit s]
  by (cases "get_documents ''event'' [] limit s")
     (auto simp: list_events_def ensure_db_available_def split: sum.splits)

lemma list_courses_store:
  "snd (list_courses (Some s) semester year limit) = Some (log_op (Find ''course'') s)"
proof -
  have "\<And>q. snd (case get_documents ''course'' q limit s of
        (Inl e, s1) \<Rightarrow> (Inl e, Some s1)
      | (Inr docs, s1) \<Rightarrow> (Inr (map (\<lambda>d. serialize_doc (Some d)) docs), Some s1))
      = Some (log_op (Find ''course'') s)"
    subgoal for q
      using get_documents_store[of "''course''" q limit s]
      by (cases "get_documents ''course'' q limit s") (auto split: sum.splits)
    done
  then show ?thesis by (simp add: list_courses_def ensure_db_available_def Let_def del: serialize_doc.simps)
qed

lemma list_timetable_store:
  "snd (list_timetable (Some s) semester year day limit) = Some (log_op (Find ''timetable'') s)"
proof -
  have "\<And>q. snd (case get_documents ''timetable'' q limit s of
        (Inl e, s1) \<Rightarrow> (Inl e, Some s1)
      | (Inr docs, s1) \<Rightarrow> (Inr (map (\<lambda>d. serialize_doc (Some d)) docs), Some s1))
      = Some (log_op (Find ''timetable'') s)"
    subgoal for q
      using get_documents_store[of "''timetable''" q limit s]
      by (cases "get_documents ''timetable'' q limit s") (auto split: sum.splits)
    done
  then show ?thesis by (simp add: list_timetable_def ensure_db_available_def Let_def del: serialize_doc.simps)
qed

lemma test_database_store: "snd (test_database env (Some s)) = Some (log_op ListCollectionNames s)"
  by (simp add: test_database_def ensure_db_available_def list_collection_names_def Let_def
      split: option.splits)

lemma unique_ids_all:
  "unique_ids s \<longleftrightarrow> (\<forall>c. distinct (ids (coll s c)) \<and> list_all is_oid (ids (coll s c)))"
proof
  assume u: "unique_ids s"
  show "\<forall>c. distinct (ids (coll s c)) \<and> list_all is_oid (ids (coll s c))"
  proof
    fix c
    show "distinct (ids (coll s c)) \<and> list_all is_oid (ids (coll s c))"
    proof (cases "c \<in> fst ` set (colls s)")
      case True
      with u show ?thesis by (auto simp: unique_ids_def list_all_iff)
    next
      case False
      then have "map_of (colls s) c = None" by (simp add: map_of_eq_None_iff)
      then have "coll s c = []" by (simp add: coll_def)
      then show ?thesis by (simp add: ids_def)
    qed
  qed
next
  assume "\<forall>c. distinct (ids (coll s c)) \<and> list_all is_oid (ids (coll s c))"
  then show "unique_ids s" by (simp add: unique_ids_def list_all_iff)
qed

lemma ids_kept_refl: "ids_kept xs xs"
  by (simp add: ids_kept_def)

lemma ids_kept_remove: "i < length xs \<Longrightarrow> ids_kept xs (take i xs @ drop (Suc i) xs)"
  by (auto simp: ids_kept_def list_ex_iff)

lemma ids_kept_append: "x \<notin> set xs \<Longrightarrow> is_oid x \<Longrightarrow> ids_kept xs (xs @ [x])"
  by (simp add: ids_kept_def)

lemma ids_kept_unique:
  assumes "ids_kept old new" "distinct old" "list_all is_oid old"
  shows "distinct new \<and> list_all is_oid new"
proof -
  from assms(1) consider "new = old"
    | i where "i < length old" "new = take i old @ drop (Suc i) old"
    | "new \<noteq> []" "butlast new = old" "last new \<notin> set old" "is_oid (last new)"
    by (auto simp: ids_kept_def list_ex_iff)
  then show ?thesis
  proof cases
    case 1
    with assms show ?thesis by simp
  next
    case 2
    have "list_all is_oid (take i old @ drop (Suc i) old)"
      using assms(3) by (auto simp: list_all_iff dest: in_set_takeD in_set_dropD)
    with 2 distinct_remove_nth[OF assms(2), of i] show ?thesis by simp
  next
    case 3
    then have n: "new = old @ [last new]" by (metis append_butlast_last_id)
    have "distinct (old @ [last new]) \<and> list_all is_oid (old @ [last new])"
      using 3(3,4) assms(2,3) by simp
    with n show ?thesis by metis
  qed
qed

lemma handle_None: "handle None r = None"
proof (cases r)
  case (Post q)
  then show ?thesis by (simp add: post_unfold create_handler_def ensure_db_available_def)
next
  case (Put ident p)
  then show ?thesis by (simp add: put_unfold update_handler_no_db)
next
  case (Delete e ident)
  then show ?thesis by (simp add: delete_unfold delete_handler_no_db)
next
  case (ListEvents limit)
  then show ?thesis by (simp add: list_events_def ensure_db_available_def)
next
  case (ListCourses semester year limit)
  then show ?thesis by (simp add: list_courses_def ensure_db_available_def)
next
  case (ListTimetable semester year day limit)
  then show ?thesis by (simp add: list_timetable_def ensure_db_available_def)
next
  case (Test env)
  then show ?thesis by (simp add: test_database_def ensure_db_available_def)
qed

lemma post_appends:
  "\<exists>s'. handle (Some s) (Post q) = Some s'
     \<and> (\<forall>c. coll s' c = coll s c
          \<or> (c = collection_name (created_entity q)
             \<and> coll s' c = coll s c @ [dict_set ''_id'' (VObjectId (oid_gen s (oid_counter s))) (entity_dump q)]
             \<and> Some (VObjectId (oid_gen s (oid_counter s))) \<notin> set (ids (coll s c))))"
proof -
  obtain r db' where run: "post (Some s) q = (r, db')" by (cases "post (Some s) q")
  from create_handler_effect[OF run[unfolded post_unfold] entity_dump_no_id]
  obtain s' where "db' = Some s'"
    and "\<forall>c. coll s' c = coll s c
          \<or> (c = collection_name (created_entity q)
             \<and> coll s' c = coll s c @ [dict_set ''_id'' (VObjectId (oid_gen s (oid_counter s))) (entity_dump q)]
             \<and> Some (VObjectId (oid_gen s (oid_counter s))) \<notin> set (ids (coll s c)))"
    by metis
  with run show ?thesis by simp
qed

lemma handle_step:
  "\<exists>s'. handle (Some s) r = Some s' \<and> (\<forall>c. ids_kept (ids (coll s c)) (ids (coll s' c)))"
proof (cases r)
  case (Post q)
  from post_appends[of s q] obtain s' where s': "handle (Some s) (Post q) = Some s'"
    and c: "\<forall>c. coll s' c = coll s c
          \<or> (c = collection_name (created_entity q)
             \<and> coll s' c = coll s c @ [dict_set ''_id'' (VObjectId (oid_gen s (oid_counter s))) (entity_dump q)]
             \<and> Some (VObjectId (oid_gen s (oid_counter s))) \<notin> set (ids (coll s c)))"
    by blast
  have "ids_kept (ids (coll s c)) (ids (coll s' c))" for c
  proof -
    from c have "coll s' c = coll s c
          \<or> (coll s' c = coll s c @ [dict_set ''_id'' (VObjectId (oid_gen s (oid_counter s))) (entity_dump q)]
             \<and> Some (VObjectId (oid_gen s (oid_counter s))) \<notin> set (ids (coll s c)))" by blast
    then show ?thesis
    proof
      assume "coll s' c = coll s c"
      then show ?thesis by (simp add: ids_kept_refl)
    next
      assume a: "coll s' c = coll s c @ [dict_set ''_id'' (VObjectId (oid_gen s (oid_counter s))) (entity_dump q)]
             \<and> Some (VObjectId (oid_gen s (oid_counter s))) \<notin> set (ids (coll s c))"
      then have "ids (coll s' c) = ids (coll s c) @ [Some (VObjectId (oid_gen s (oid_counter s)))]"
        by (simp add: ids_def map_of_dict_set)
      with a show ?thesis by (simp add: ids_kept_append)
    qed
  qed
  with s' Post show ?thesis by blast
next
  case (Put ident p)
  from put_ids[of s ident p] show ?thesis by (auto simp: Put ids_kept_refl)
next
  case (Delete e ident)
  from delete_removes[of s e ident] obtain s' where s': "snd (delete (Some s) e ident) = Some s'"
    and c: "\<forall>c. coll s' c = coll s c
           \<or> (\<exists>i < length (coll s c). coll s' c = take i (coll s c) @ drop (Suc i) (coll s c))"
    by blast
  have "ids_kept (ids (coll s c)) (ids (coll s' c))" for c
  proof -
    from c have "coll s' c = coll s c
           \<or> (\<exists>i < length (coll s c). coll s' c = take i (coll s c) @ drop (Suc i) (coll s c))" by blast
    then show ?thesis
    proof
      assume "coll s' c = coll s c"
      then show ?thesis by (simp add: ids_kept_refl)
    next
      assume "\<exists>i < length (coll s c). coll s' c = take i (coll s c) @ drop (Suc i) (coll s c)"
      then obtain i where i: "i < length (coll s c)" "coll s' c = take i (coll s c) @ drop (Suc i) (coll s c)"
        by blast
      then have "ids (coll s' c) = take i (ids (coll s c)) @ drop (Suc i) (ids (coll s c))"
        by (simp only: ids_remove_nth)
      moreover have "i < length (ids (coll s c))" using i(1) by (simp add: ids_def)
      ultimately show ?thesis by (simp add: ids_kept_remove)
    qed
  qed
  with s' Delete show ?thesis by simp
next
  case (ListEvents limit)
  then show ?thesis by (simp add: list_events_store ids_kept_refl)
next
  case (ListCourses semester year limit)
  then show ?thesis by (simp add: list_courses_store ids_kept_refl)
next
  case (ListTimetable semester year day limit)
  then show ?thesis by (simp add: list_timetable_store ids_kept_refl)
next
  case (Test env)
  then show ?thesis by (simp add: test_database_store ids_kept_refl)
qed

lemma handle_unique:
  assumes "unique_ids s"
  shows "\<exists>s'. handle (Some s) r = Some s' \<and> unique_ids s'"
proof -
  from handle_step[of s r] obtain s' where s': "handle (Some s) r = Some s'"
    and k: "\<forall>c. ids_kept (ids (coll s c)) (ids (coll s' c))" by blast
  have "distinct (ids (coll s' c)) \<and> list_all is_oid (ids (coll s' c))" for c
    using ids_kept_unique[OF k[rule_format, of c]] assms by (simp add: unique_ids_all)
  then have "unique_ids s'" by (simp add: unique_ids_all)
  with s' show ?thesis by blast
qed

lemma run_unique:
  "unique_ids s \<Longrightarrow> \<exists>s'. run (Some s) rs = Some s' \<and> unique_ids s'"
proof (induction rs arbitrary: s)
  case Nil
  then show ?case by (simp add: run_def)
next
  case (Cons r rs)
  from handle_unique[OF Cons.prems, of r] obtain s1 where s1: "handle (Some s) r = Some s1" "unique_ids s1"
    by blast
  from Cons.IH[OF s1(2)] obtain s' where "run (Some s1) rs = Some s'" "unique_ids s'" by blast
  with s1(1) show ?case by (simp add: run_def)
qed

lemma unique_example_store: "unique_ids example_store"
  by (simp add: unique_ids_def example_store_def coll_def ids_def example_event_def example_course_def
      example_slot_def)

lemma ObjectId_not_hex: "ObjectId ''zzzzzzzzzzzzzzzzzzzzzzzz'' = None"
  by (simp add: ObjectId_def py_len_def is_continuation_def is_space_def is_hex_def)

lemma ObjectId_spaced: "ObjectId spaced_id = Some ''64b7f0c2a1d3e4f5''"
  by (simp add: ObjectId_def py_len_def is_continuation_def spaced_id_def is_space_def is_hex_def
      lower_hex_def)

lemma py_prefix_accent:
  "py_prefix 2 [CHR 0xC3, CHR 0xA9, CHR ''t'', CHR 0xC3, CHR 0xA9] = [CHR 0xC3, CHR 0xA9, CHR ''t'']"
  by (simp add: is_continuation_def)

lemma py_len_accent: "py_len [CHR 0xC3, CHR 0xA9, CHR ''t'', CHR 0xC3, CHR 0xA9] = 3"
  by (simp add: py_len_def is_continuation_def)

lemma test_database_returns:
  "\<exists>r. fst (test_database env db) = Inr r
     \<and> backend r = check_mark @ '' Running''
     \<and> database_url r = (case DATABASE_URL env of None \<Rightarrow> cross_mark @ '' Not Set''
          | Some v \<Rightarrow> if v = [] then cross_mark @ '' Not Set'' else check_mark @ '' Set'')
     \<and> database_name r = (case DATABASE_NAME env of None \<Rightarrow> cross_mark @ '' Not Set''
          | Some v \<Rightarrow> if v = [] then cross_mark @ '' Not Set'' else check_mark @ '' Set'')"
  by (cases db)
     (auto simp: test_database_def ensure_db_available_def set_or_not_def truthy_def
        list_collection_names_def db_unavailable_def split: option.splits)

section \<open>Partial updates\<close>

text \<open>
  C1. A successful PUT whose payload supplies only field \<open>X\<close> (every other field null or
  absent) rewrites exactly one record of the targeted collection, the first one carrying the
  parsed identifier: there \<open>X\<close> holds the supplied value, \<^verbatim>\<open>updated_at\<close> holds the server's
  \<^verbatim>\<open>localTime\<close>, and every other field reads as before. All other records of the collection
  and all other collections are untouched.
\<close>

theorem partial_update_frame:
  assumes run: "put db ident p = (Inr r, db')"
      and only: "non_null (model_dump p) = [(X, v)]"
  shows "\<exists>s s' oid i. db = Some s \<and> db' = Some s' \<and> ObjectId ident = Some oid
     \<and> (\<forall>c. c \<noteq> collection_name (payload_entity p) \<longrightarrow> coll s' c = coll s c)
     \<and> length (coll s' (collection_name (payload_entity p))) = length (coll s (collection_name (payload_entity p)))
     \<and> i < length (coll s (collection_name (payload_entity p)))
     \<and> has_id oid (coll s (collection_name (payload_entity p)) ! i)
     \<and> map_of (coll s' (collection_name (payload_entity p)) ! i) X = Some v
     \<and> map_of (coll s' (collection_name (payload_entity p)) ! i) ''updated_at''
         = Some (dict_get (isMaster_reply s) ''localTime'')
     \<and> (\<forall>k. k \<noteq> X \<and> k \<noteq> ''updated_at'' \<longrightarrow>
           map_of (coll s' (collection_name (payload_entity p)) ! i) k
           = map_of (coll s (collection_name (payload_entity p)) ! i) k)
     \<and> (\<forall>j < length (coll s (collection_name (payload_entity p))). j \<noteq> i \<longrightarrow>
           coll s' (collection_name (payload_entity p)) ! j = coll s (collection_name (payload_entity p)) ! j)"
proof -
  let ?n = "collection_name (payload_entity p)"
  from run obtain s s' oid i where h: "db = Some s" "db' = Some s'" "ObjectId ident = Some oid"
    "i < length (coll s ?n)" "has_id oid (coll s ?n ! i)"
    "coll s' ?n = (coll s ?n)[i := apply_set (stamped s (model_dump p)) (coll s ?n ! i)]"
    "\<forall>c. c \<noteq> ?n \<longrightarrow> coll s' c = coll s c"
    using update_handler_success[OF run[unfolded put_unfold]] by blast
  have "(X, v) \<in> set (non_null (model_dump p))" using only by simp
  then have "(X, v) \<in> set (model_dump p)" by (simp add: non_null_def)
  then have "X \<in> fst ` set (model_dump p)" by (rule rev_image_eqI) simp
  then have X: "X \<noteq> ''updated_at''" using model_dump_no_updated_at[of p] by blast
  let ?t = "dict_get (isMaster_reply s) ''localTime''"
  have st: "stamped s (model_dump p) = [(X, v), (''updated_at'', ?t)]"
    using X by (simp add: stamped_def only dict_set_def)
  have m: "\<And>d k. map_of (apply_set [(X, v), (''updated_at'', ?t)] d) k
      = (if k = ''updated_at'' then Some ?t else if k = X then Some v else map_of d k)"
    by (simp add: apply_set_def map_of_dict_set)
  show ?thesis
    using h X by (intro exI[of _ s] exI[of _ s'] exI[of _ oid] exI[of _ i]) (simp add: st m)
qed

theorem partial_update_frame_witness:
  "map_of (coll (the (snd (put (Some example_store) example_id (EventPayload location_only)))) ''event'' ! 0) ''title''
     = Some (VStr ''Open Day'')
   \<and> map_of (coll (the (snd (put (Some example_store) example_id (EventPayload location_only)))) ''event'' ! 0) ''location''
     = Some (VStr ''Main Hall'')"
proof -
  have f: "fault example_store = None" by (simp add: example_store_def)
  have c: "coll example_store ''event'' = [example_event]" by (simp add: coll_def example_store_def)
  have n: "non_null (model_dump (EventPayload location_only)) = [(''location'', VStr ''Main Hall'')]"
    by (simp add: non_null_def EventUpdate_dump_def location_only_def opt_str_def)
  have hid: "has_id example_id example_event" by (simp add: has_id_def example_event_def example_id_def)
  have "\<exists>r s'. put (Some example_store) example_id (EventPayload location_only) = (Inr r, Some s')"
    unfolding put_unfold using update_handler_hit[OF f ObjectId_example, of "model_dump (EventPayload location_only)" "''event''"] n c hid
    by simp
  then obtain r s' where run: "put (Some example_store) example_id (EventPayload location_only) = (Inr r, Some s')"
    by blast
  have ev: "coll (the (snd (put (Some example_store) example_id (EventPayload location_only)))) = coll s'"
    by (subst run) simp
  from partial_update_frame[OF run n] show ?thesis
    unfolding ev
    apply (elim exE conjE)
    apply (simp add: c example_event_def)
    done
qed

section \<open>Rejected requests\<close>

text \<open>
  C2, as stated, fails: \<^verbatim>\<open>ensure_db_available()\<close> is the first statement of every handler,
  so with no database handle a malformed identifier is answered with 500, not 400.
\<close>

theorem malformed_id_counterexample:
  "ObjectId ''not-an-id'' = None
   \<and> fst (put None ''not-an-id'' (EventPayload location_only)) = Inl (HTTPException 500 db_unavailable)
   \<and> fst (delete None Event ''not-an-id'') = Inl (HTTPException 500 db_unavailable)"
  by (simp add: ObjectId_not_an_id update_event_def delete_event_def update_handler_no_db
      delete_handler_no_db)

text \<open>
  C2, amended. For every identifier string that \<^verbatim>\<open>ObjectId\<close> rejects (its length is not 24,
  or \<^verbatim>\<open>bytes.fromhex\<close> refuses it), and for all three entity types: when the database
  handle is there, the update and the delete handler fail with \<^verbatim>\<open>HTTPException(400)\<close> and hand
  back the store exactly as it was, operation log included, so no store operation was
  performed (this holds although the store may be unreachable); when the handle is missing
  they fail with \<^verbatim>\<open>HTTPException(500)\<close>, again without a store operation. A string of 24
  characters with whitespace between its digit pairs is not rejected: it parses to a shorter
  identifier and the request goes on to the store.
\<close>

theorem malformed_id_rejected:
  assumes "ObjectId ident = None"
  shows "put (Some s) ident p = (Inl (HTTPException 400 (invalid_id_detail (payload_entity p))), Some s)
       \<and> delete (Some s) e ident = (Inl (HTTPException 400 (invalid_id_detail e)), Some s)
       \<and> put None ident p = (Inl (HTTPException 500 db_unavailable), None)
       \<and> delete None e ident = (Inl (HTTPException 500 db_unavailable), None)"
  using assms
  by (simp add: put_unfold delete_unfold update_handler_bad_id delete_handler_bad_id
      update_handler_no_db delete_handler_no_db)

theorem malformed_id_rejected_witness:
  "put (Some example_store) ''not-an-id'' (EventPayload location_only)
     = (Inl (HTTPException 400 ''Invalid event id''), Some example_store)
   \<and> delete (Some example_store) Timetable ''zzzzzzzzzzzzzzzzzzzzzzzz''
     = (Inl (HTTPException 400 ''Invalid timetable id''), Some example_store)
   \<and> ObjectId spaced_id = Some ''64b7f0c2a1d3e4f5''
   \<and> fst (delete (Some example_store) Event spaced_id) = Inl (HTTPException 404 ''Event not found'')"
proof -
  have f: "fault example_store = None" by (simp add: example_store_def)
  have c: "\<forall>d \<in> set (coll example_store ''event''). \<not> has_id ''64b7f0c2a1d3e4f5'' d"
    by (simp add: coll_def example_store_def has_id_def example_event_def)
  have "fst (delete (Some example_store) Event spaced_id) = Inl (HTTPException 404 ''Event not found'')"
    by (simp add: delete_event_def delete_handler_miss[OF f ObjectId_spaced c])
  then show ?thesis
    using malformed_id_rejected[OF ObjectId_not_an_id, of example_store "EventPayload location_only" Timetable]
      malformed_id_rejected[OF ObjectId_not_hex, of example_store "EventPayload location_only" Timetable]
    by (simp add: ObjectId_spaced)
qed

text \<open>
  C4, as stated, fails for the same reason: with no database handle an update whose payload
  has no non-null field is answered with 500, not 400.
\<close>

theorem empty_update_counterexample:
  "non_null (model_dump (EventPayload all_null)) = []
   \<and> fst (put None example_id (EventPayload all_null)) = Inl (HTTPException 500 db_unavailable)"
  by (simp add: non_null_def EventUpdate_dump_def all_null_def opt_str_def update_event_def
      update_handler_no_db)

text \<open>
  C4, amended. For every update request whose payload has zero non-null fields: when the
  database handle is there, the handler fails with \<^verbatim>\<open>HTTPException(400)\<close> (the invalid-id
  detail for a malformed identifier, "No fields to update" otherwise) and hands back the store
  exactly as it was, so nothing is written and no store operation is performed; when the
  handle is missing the handler fails with \<^verbatim>\<open>HTTPException(500)\<close>, and nothing is written either.
\<close>

theorem empty_update_rejected:
  assumes "non_null (model_dump p) = []"
  shows "put (Some s) ident p =
           (Inl (HTTPException 400 (if ObjectId ident = None then invalid_id_detail (payload_entity p)
                                    else ''No fields to update'')), Some s)
       \<and> put None ident p = (Inl (HTTPException 500 db_unavailable), None)"
proof (cases "ObjectId ident")
  case None
  then show ?thesis by (simp add: put_unfold update_handler_bad_id update_handler_no_db)
next
  case (Some oid)
  with assms show ?thesis by (simp add: put_unfold update_handler_empty update_handler_no_db)
qed

theorem empty_update_rejected_witness:
  "put (Some example_store) example_id (EventPayload all_null)
     = (Inl (HTTPException 400 ''No fields to update''), Some example_store)"
  using empty_update_rejected[OF all_null_empty, of example_store example_id]
  by (simp add: ObjectId_example)




section \<open>Identifiers\<close>

text \<open>
  C9. A record gets its identifier when it is inserted: the dumped create payload has no
  \<^verbatim>\<open>_id\<close>, the driver puts the next generated ObjectId under \<^verbatim>\<open>_id\<close>, and the store refuses
  an identifier that the collection already holds. No update handler ever applies the
  identifier field: \<^verbatim>\<open>_id\<close> is not a key of the dict handed to \<^verbatim>\<open>update_one\<close>. For every
  request of the service, whatever it answers, the identifiers of every collection are
  afterwards as before, or one is gone (a delete), or one new ObjectId has been added at the
  end (a create): a PUT leaves all of them in place, a create leaves the existing records
  untouched, a delete removes one record and leaves the others untouched. So if every record
  carries an ObjectId that no other record of its collection carries, the same holds after
  every request and after every sequence of requests.
\<close>

theorem identifier_never_changed:
  "''_id'' \<notin> fst ` set (stamped s (model_dump p))
   \<and> ''_id'' \<notin> fst ` set (entity_dump q)
   \<and> (\<exists>s'. handle (Some s) r = Some s'
         \<and> (\<forall>c. ids_kept (ids (coll s c)) (ids (coll s' c)))
         \<and> (unique_ids s \<longrightarrow> unique_ids s'))
   \<and> (\<exists>s'. handle (Some s) (Put ident p) = Some s' \<and> (\<forall>c. ids (coll s' c) = ids (coll s c)))
   \<and> (\<exists>s'. handle (Some s) (Post q) = Some s'
         \<and> (\<forall>c. coll s' c = coll s c
               \<or> (c = collection_name (created_entity q)
                  \<and> coll s' c = coll s c @ [dict_set ''_id'' (VObjectId (oid_gen s (oid_counter s))) (entity_dump q)]
                  \<and> Some (VObjectId (oid_gen s (oid_counter s))) \<notin> set (ids (coll s c)))))
   \<and> (\<exists>s'. handle (Some s) (Delete e ident) = Some s'
         \<and> (\<forall>c. coll s' c = coll s c
               \<or> (\<exists>i < length (coll s c). coll s' c = take i (coll s c) @ drop (Suc i) (coll s c))))
   \<and> (unique_ids s \<longrightarrow> (\<exists>s'. run (Some s) rs = Some s' \<and> unique_ids s'))
   \<and> (colls s = [] \<longrightarrow> (\<exists>s'. run (Some s) rs = Some s' \<and> unique_ids s'))
   \<and> handle None r = None"
proof -
  have 3: "\<exists>s'. handle (Some s) r = Some s'
         \<and> (\<forall>c. ids_kept (ids (coll s c)) (ids (coll s' c)))
         \<and> (unique_ids s \<longrightarrow> unique_ids s')"
  proof -
    from handle_step[of s r] obtain s' where s': "handle (Some s) r = Some s'"
      "\<forall>c. ids_kept (ids (coll s c)) (ids (coll s' c))" by blast
    have "unique_ids s \<longrightarrow> unique_ids s'" using handle_unique[of s r] s'(1) by auto
    with s' show ?thesis by blast
  qed
  have 4: "\<exists>s'. handle (Some s) (Put ident p) = Some s' \<and> (\<forall>c. ids (coll s' c) = ids (coll s c))"
    using put_ids[of s ident p] by simp
  have 6: "\<exists>s'. handle (Some s) (Delete e ident) = Some s'
         \<and> (\<forall>c. coll s' c = coll s c
               \<or> (\<exists>i < length (coll s c). coll s' c = take i (coll s c) @ drop (Suc i) (coll s c)))"
    using delete_removes[of s e ident] by simp
  have 7: "unique_ids s \<longrightarrow> (\<exists>s'. run (Some s) rs = Some s' \<and> unique_ids s')"
    using run_unique[of s rs] by blast
  have 8: "colls s = [] \<longrightarrow> (\<exists>s'. run (Some s) rs = Some s' \<and> unique_ids s')"
    using run_unique[of s rs] by (simp add: unique_ids_def)
  from stamped_no_id[of s p] entity_dump_no_id[of q] 3 4 post_appends[of s q] 6 7 8 handle_None[of r]
  show ?thesis by (intro conjI)
qed

theorem identifier_never_changed_witness:
  "unique_ids (the (run (Some empty_store) example_requests))
   \<and> unique_ids (the (run (Some example_store) example_requests))
   \<and> ids (coll (the (handle (Some example_store) (Post (CourseEntity new_course)))) ''course'')
       = [Some (VObjectId example_id), Some (VObjectId ''64b7f0c2a1d3e4f5a6b7c8d0'')]
   \<and> ids (coll (the (handle (Some example_store) (Put example_id (EventPayload location_only)))) ''event'')
       = [Some (VObjectId example_id)]"
proof -
  from identifier_never_changed[of example_store _ _ _ _ _ example_requests] unique_example_store
  obtain s' where "run (Some example_store) example_requests = Some s'" "unique_ids s'" by blast
  then have a: "unique_ids (the (run (Some example_store) example_requests))" by simp
  have "colls empty_store = []" by (simp add: empty_store_def)
  with identifier_never_changed[of empty_store _ _ _ _ _ example_requests]
  obtain s0 where "run (Some empty_store) example_requests = Some s0" "unique_ids s0" by blast
  then have a0: "unique_ids (the (run (Some empty_store) example_requests))" by simp
  from identifier_never_changed[of example_store "EventPayload location_only" _ _ example_id]
  obtain s1 where "handle (Some example_store) (Put example_id (EventPayload location_only)) = Some s1"
    "\<forall>c. ids (coll s1 c) = ids (coll example_store c)" by blast
  then have b: "ids (coll (the (handle (Some example_store) (Put example_id (EventPayload location_only)))) ''event'')
       = [Some (VObjectId example_id)]"
    by (simp add: ids_def coll_def example_store_def example_event_def example_id_def)
  have f: "fault example_store = None" by (simp add: example_store_def)
  have g: "oid_gen example_store (oid_counter example_store) = ''64b7f0c2a1d3e4f5a6b7c8d0''"
    by (simp add: example_store_def digit_char_def)
  have i: "ids (coll example_store ''course'') = [Some (VObjectId example_id)]"
    by (simp add: ids_def coll_def example_store_def example_course_def example_id_def)
  have "Some (VObjectId (oid_gen example_store (oid_counter example_store)))
      \<notin> set (ids (coll example_store (collection_name (created_entity (CourseEntity new_course)))))"
    by (simp add: g i example_id_def)
  from post_ok[OF f this] obtain s2 where "handle (Some example_store) (Post (CourseEntity new_course)) = Some s2"
    "coll s2 ''course'' = coll example_store ''course''
        @ [dict_set ''_id'' (VObjectId ''64b7f0c2a1d3e4f5a6b7c8d0'') (entity_dump (CourseEntity new_course))]"
    by (auto simp: g)
  then have c: "ids (coll (the (handle (Some example_store) (Post (CourseEntity new_course)))) ''course'')
       = [Some (VObjectId example_id), Some (VObjectId ''64b7f0c2a1d3e4f5a6b7c8d0'')]"
    using i by (simp add: ids_def map_of_dict_set)
  from a0 a b c show ?thesis by simp
qed

section \<open>Update payloads are not range-checked\<close>

text \<open>
  C10. The update models declare plain optional strings and integers. A PUT to a Course record
  succeeds and stores year 1999, credits 99 and semester "Winter"; a PUT to a Timetable record
  succeeds and stores year 2101, semester "Winter" and day "Sunday"; the create-time
  validators reject each of these values.
\<close>

theorem update_skips_create_constraints:
  "(\<exists>r s'. put (Some example_store) example_id (CoursePayload bad_course) = (Inr r, Some s')
      \<and> map_of (coll s' ''course'' ! 0) ''year'' = Some (VInt 1999)
      \<and> map_of (coll s' ''course'' ! 0) ''credits'' = Some (VInt 99)
      \<and> map_of (coll s' ''course'' ! 0) ''semester'' = Some (VStr ''Winter''))
   \<and> (\<exists>r s'. put (Some example_store) example_id (TimetablePayload bad_slot) = (Inr r, Some s')
      \<and> map_of (coll s' ''timetable'' ! 0) ''year'' = Some (VInt 2101)
      \<and> map_of (coll s' ''timetable'' ! 0) ''semester'' = Some (VStr ''Winter'')
      \<and> map_of (coll s' ''timetable'' ! 0) ''day'' = Some (VStr ''Sunday''))
   \<and> v_year (Some 1999) = None \<and> v_year (Some 2101) = None \<and> v_credits (Some (Some 99)) = None
   \<and> v_semester (Some ''Winter'') = None \<and> v_day (Some ''Sunday'') = None"
proof -
  have f: "fault example_store = None" by (simp add: example_store_def)
  have cc: "coll example_store ''course'' = [example_course]" by (simp add: coll_def example_store_def)
  have ct: "coll example_store ''timetable'' = [example_slot]" by (simp add: coll_def example_store_def)
  have hc: "has_id example_id example_course" by (simp add: has_id_def example_course_def example_id_def)
  have ht: "has_id example_id example_slot" by (simp add: has_id_def example_slot_def example_id_def)
  have nc: "non_null (CourseUpdate_dump bad_course)
      = [(''semester'', VStr ''Winter''), (''year'', VInt 1999), (''credits'', VInt 99)]"
    by (simp add: non_null_def CourseUpdate_dump_def bad_course_def opt_str_def opt_int_def)
  have nt: "non_null (TimetableUpdate_dump bad_slot)
      = [(''semester'', VStr ''Winter''), (''year'', VInt 2101), (''day'', VStr ''Sunday'')]"
    by (simp add: non_null_def TimetableUpdate_dump_def bad_slot_def opt_str_def opt_int_def)
  have nc0: "non_null (CourseUpdate_dump bad_course) \<noteq> []" by (simp add: nc)
  have nt0: "non_null (TimetableUpdate_dump bad_slot) \<noteq> []" by (simp add: nt)
  have c: "\<exists>r s'. put (Some example_store) example_id (CoursePayload bad_course) = (Inr r, Some s')
      \<and> map_of (coll s' ''course'' ! 0) ''year'' = Some (VInt 1999)
      \<and> map_of (coll s' ''course'' ! 0) ''credits'' = Some (VInt 99)
      \<and> map_of (coll s' ''course'' ! 0) ''semester'' = Some (VStr ''Winter'')"
    using update_handler_stores[OF f ObjectId_example nc0 cc hc, of "''Invalid course id''" "''Course not found''"]
    by (auto simp: update_course_def stamped_def nc apply_set_def dict_set_def example_course_def)
  have t: "\<exists>r s'. put (Some example_store) example_id (TimetablePayload bad_slot) = (Inr r, Some s')
      \<and> map_of (coll s' ''timetable'' ! 0) ''year'' = Some (VInt 2101)
      \<and> map_of (coll s' ''timetable'' ! 0) ''semester'' = Some (VStr ''Winter'')
      \<and> map_of (coll s' ''timetable'' ! 0) ''day'' = Some (VStr ''Sunday'')"
    using update_handler_stores[OF f ObjectId_example nt0 ct ht, of "''Invalid timetable id''" "''Timetable slot not found''"]
    by (auto simp: update_timetable_def stamped_def nt apply_set_def dict_set_def example_slot_def)
  have v: "v_year (Some 1999) = None \<and> v_year (Some 2101) = None \<and> v_credits (Some (Some 99)) = None
   \<and> v_semester (Some ''Winter'') = None \<and> v_day (Some ''Sunday'') = None"
    by (simp add: v_year_def v_credits_def v_semester_def v_day_def Semester_of_def DayOfWeek_of_def)
  from c t v show ?thesis by blast
qed

section \<open>Create-time validation of the year\<close>

text \<open>
  C5. For every Course and Timetable create payload and every year \<open>y\<close> put into it: if
  \<open>2000 \<le> y \<le> 2100\<close>, the year field raises no validation error, and a payload that validates
  with some year validates with \<open>y\<close> as well (in particular with 2000 and with 2100);
  otherwise validation fails with a ValidationError that names the year field.
\<close>

theorem year_range_inclusive:
  "(if 2000 \<le> y \<and> y \<le> 2100
    then ''year'' \<notin> set (Course_errors (p\<lparr>ci_year := Some y\<rparr>))
       \<and> ''year'' \<notin> set (Timetable_errors (q\<lparr>ti_year := Some y\<rparr>))
       \<and> (\<forall>c. validate_Course p = Inr c \<longrightarrow> validate_Course (p\<lparr>ci_year := Some y\<rparr>) = Inr (c\<lparr>c_year := y\<rparr>))
       \<and> (\<forall>t. validate_Timetable q = Inr t \<longrightarrow> validate_Timetable (q\<lparr>ti_year := Some y\<rparr>) = Inr (t\<lparr>t_year := y\<rparr>))
    else (\<exists>fs. validate_Course (p\<lparr>ci_year := Some y\<rparr>) = Inl (ValidationError fs) \<and> ''year'' \<in> set fs)
       \<and> (\<exists>fs. validate_Timetable (q\<lparr>ti_year := Some y\<rparr>) = Inl (ValidationError fs) \<and> ''year'' \<in> set fs))"
proof (cases "2000 \<le> y \<and> y \<le> 2100")
  case True
  then show ?thesis
    using validate_Course_year_ok[OF True, of p] validate_Timetable_year_ok[OF True, of q] by simp
next
  case False
  then show ?thesis
    using validate_Course_year_bad[OF False, of p] validate_Timetable_year_bad[OF False, of q] by simp
qed

theorem year_range_inclusive_witness:
  "validate_Course (course_input\<lparr>ci_year := Some 2000\<rparr>)
     = Inr \<lparr>c_code = ''GYD101'', c_title = ''Gender Studies'', c_semester = Fall,
            c_year = 2000, c_lecturer = None, c_credits = Some 3, c_description = None\<rparr>
   \<and> validate_Timetable (slot_input\<lparr>ti_year := Some 2100\<rparr>)
     = Inr \<lparr>t_semester = Fall, t_year = 2100, t_day = Monday,
            t_start_time = ''09:00'', t_end_time = ''10:30'', t_course_code = ''GYD101'', t_venue = None,
            t_lecturer = None, t_notes = None\<rparr>
   \<and> validate_Course (course_input\<lparr>ci_year := Some 1999\<rparr>) = Inl (ValidationError [''year''])
   \<and> validate_Timetable (slot_input\<lparr>ti_year := Some 2101\<rparr>) = Inl (ValidationError [''year''])"
proof -
  have a: "validate_Course (course_input\<lparr>ci_year := Some 2000\<rparr>)
     = Inr \<lparr>c_code = ''GYD101'', c_title = ''Gender Studies'', c_semester = Fall,
            c_year = 2000, c_lecturer = None, c_credits = Some 3, c_description = None\<rparr>"
    using year_range_inclusive[of 2000 course_input slot_input] by (simp add: course_input_valid)
  have b: "validate_Timetable (slot_input\<lparr>ti_year := Some 2100\<rparr>)
     = Inr \<lparr>t_semester = Fall, t_year = 2100, t_day = Monday,
            t_start_time = ''09:00'', t_end_time = ''10:30'', t_course_code = ''GYD101'', t_venue = None,
            t_lecturer = None, t_notes = None\<rparr>"
    using year_range_inclusive[of 2100 course_input slot_input] by (simp add: slot_input_valid)
  have c: "validate_Course (course_input\<lparr>ci_year := Some 1999\<rparr>) = Inl (ValidationError [''year''])"
    by (simp add: validate_Course_def Course_errors_def course_input_def v_semester_def Semester_of_def
        v_year_def v_credits_def failed_def)
  have d: "validate_Timetable (slot_input\<lparr>ti_year := Some 2101\<rparr>) = Inl (ValidationError [''year''])"
    by (simp add: validate_Timetable_def Timetable_errors_def slot_input_def v_semester_def Semester_of_def
        v_year_def v_day_def DayOfWeek_of_def failed_def)
  from a b c d show ?thesis by simp
qed

section \<open>Listing courses\<close>

text \<open>
  C7. With the store answering, listing Courses with semester "Fall" and year 2025 returns
  exactly the serialized records of the course collection whose \<^verbatim>\<open>semester\<close> and \<^verbatim>\<open>year\<close>
  fields both hold these values, in collection order; listing with no filter parameter
  returns all records; both truncated to \<^verbatim>\<open>limit\<close> when a limit is given.
\<close>

theorem list_courses_filter:
  assumes "fault s = None"
  shows "list_courses (Some s) (Some ''Fall'') (Some 2025) limit
           = (Inr (map (\<lambda>d. serialize_doc (Some d))
                    (cap limit (filter (\<lambda>d. map_of d ''semester'' = Some (VStr ''Fall'')
                                           \<and> map_of d ''year'' = Some (VInt 2025)) (coll s ''course'')))),
              Some (log_op (Find ''course'') s))
       \<and> list_courses (Some s) None None limit
           = (Inr (map (\<lambda>d. serialize_doc (Some d)) (cap limit (coll s ''course''))),
              Some (log_op (Find ''course'') s))
       \<and> cap None (coll s ''course'') = coll s ''course''
       \<and> (\<forall>n. cap (Some n) (coll s ''course'') = take (nat n) (coll s ''course''))"
proof -
  have q: "dict_set ''year'' (VInt 2025) (dict_set ''semester'' (VStr ''Fall'') [])
      = [(''semester'', VStr ''Fall''), (''year'', VInt 2025)]"
    by (simp add: dict_set_def)
  have a: "list_courses (Some s) (Some ''Fall'') (Some 2025) limit
           = (Inr (map (\<lambda>d. serialize_doc (Some d))
                    (cap limit (filter (\<lambda>d. map_of d ''semester'' = Some (VStr ''Fall'')
                                           \<and> map_of d ''year'' = Some (VInt 2025)) (coll s ''course'')))),
              Some (log_op (Find ''course'') s))"
    by (simp add: list_courses_def ensure_db_available_def Let_def q get_documents_ok[OF assms]
        matches_semester_year del: serialize_doc.simps)
  have b: "list_courses (Some s) None None limit
           = (Inr (map (\<lambda>d. serialize_doc (Some d)) (cap limit (coll s ''course''))),
              Some (log_op (Find ''course'') s))"
    by (simp add: list_courses_def ensure_db_available_def Let_def get_documents_ok[OF assms]
        matches_Nil del: serialize_doc.simps)
  have c: "cap None (coll s ''course'') = coll s ''course''
       \<and> (\<forall>n. cap (Some n) (coll s ''course'') = take (nat n) (coll s ''course''))"
    by (simp add: cap_def)
  from a b c show ?thesis by (simp only: simp_thms)
qed

theorem list_courses_filter_witness:
  "fst (list_courses (Some example_store) (Some ''Fall'') (Some 2025) None)
     = Inr [serialize_doc (Some example_course)]
   \<and> fst (list_courses (Some example_store) None None (Some 0)) = Inr []"
proof -
  have f: "fault example_store = None" by (simp add: example_store_def)
  have c: "coll example_store ''course'' = [example_course]" by (simp add: coll_def example_store_def)
  have m: "map_of example_course ''semester'' = Some (VStr ''Fall'')"
    "map_of example_course ''year'' = Some (VInt 2025)" by (simp_all add: example_course_def)
  from list_courses_filter[OF f, of None] list_courses_filter[OF f, of "Some 0"]
  show ?thesis by (simp add: c m cap_def del: serialize_doc.simps)
qed

section \<open>The diagnostic endpoint\<close>

text \<open>
  C8. \<^verbatim>\<open>test_database\<close> always returns its response dict, and the two configuration fields
  report presence. The connection status is another matter: \<^verbatim>\<open>connection_status\<close> is set to
  "Connected" before \<^verbatim>\<open>list_collection_names\<close> is called, and the clause that catches the
  driver's exception rewrites \<^verbatim>\<open>database\<close> only. With the handle there and the store not
  answering, the response reads "Connected" next to the error; the sibling clause, for a
  missing handle, leaves "Not Connected" in place.
\<close>

theorem test_database_unreachable_store:
  "fst (test_database env_set (Some slow_store)) =
     Inr \<lparr>backend = check_mark @ '' Running'',
          database = cross_mark @ '' Error: localhost:27017: [Errno 111] Connexion refus'' @ [CHR 0xC3, CHR 0xA9]
                     @ ''e (configured timeouts: socketTimeo'',
          database_url = check_mark @ '' Set'',
          database_name = check_mark @ '' Set'',
          connection_status = ''Connected'',
          collections = []\<rparr>
   \<and> fst (test_database env_unset None) =
     Inr \<lparr>backend = check_mark @ '' Running'',
          database = cross_mark @ '' Database not available. Configure DATABASE_URL and DATABASE_NAME.'',
          database_url = cross_mark @ '' Not Set'',
          database_name = cross_mark @ '' Not Set'',
          connection_status = ''Not Connected'',
          collections = []\<rparr>"
  by (simp add: test_database_def ensure_db_available_def set_or_not_def truthy_def env_set_def
      env_unset_def list_collection_names_def slow_store_def example_store_def db_unavailable_def
      log_op_def is_continuation_def)

section \<open>Serialization\<close>

text \<open>
  C6. For every raw stored record \<open>d\<close> (a dict, so every key once, its dates within the ranges
  of Python's types), \<open>serialize_doc\<close> returns a dict \<open>d'\<close> in which: \<^verbatim>\<open>_id\<close> is gone and, when
  \<open>d\<close> had it, \<^verbatim>\<open>id\<close> holds a string, for an ObjectId its hexadecimal digits; every date is
  replaced by the text \<^verbatim>\<open>YYYY-MM-DD\<close> that reads back as its year, month and day, and every
  date-time by that text, \<^verbatim>\<open>T\<close> and \<^verbatim>\<open>HH:MM:SS\<close>, with the microseconds as six more digits
  unless they are zero; every other field passes through unchanged (a field that was already
  called \<^verbatim>\<open>id\<close> gives way to the renamed identifier); no field is added. Applying
  \<open>serialize_doc\<close> twice equals applying it once. On the heap the function works on a copy:
  every dict object allocated before the call, the caller's record among them, is unchanged
  by it, and the object it returns holds the serialized record.
\<close>

theorem serialize_doc_contract:
  assumes "wf_dict d" and "valid_values d"
  shows "\<exists>d'. serialize_doc (Some d) = Some d'
     \<and> map_of d' ''_id'' = None
     \<and> (\<forall>h. map_of d ''_id'' = Some (VObjectId h) \<longrightarrow> map_of d' ''id'' = Some (VStr h))
     \<and> (\<forall>v. map_of d ''_id'' = Some v \<longrightarrow> (\<exists>t. map_of d' ''id'' = Some (VStr t)))
     \<and> (\<forall>k v. map_of d k = Some v \<and> k \<noteq> ''_id'' \<and> (k \<noteq> ''id'' \<or> map_of d ''_id'' = None) \<longrightarrow>
            (\<exists>r. map_of d' k = Some r \<and> rendered v r))
     \<and> (\<forall>k. map_of d k = None \<and> k \<noteq> ''id'' \<longrightarrow> map_of d' k = None)
     \<and> serialize_doc (serialize_doc (Some d)) = serialize_doc (Some d)
     \<and> (\<forall>h a. a < next_free h \<and> cells h a = d \<longrightarrow>
          (case serialize_doc_heap a h of (c, h') \<Rightarrow>
             Some (cells h' c) = serialize_doc (Some d)
             \<and> (\<forall>b < next_free h. cells h' b = cells h b)))"
proof -
  let ?d' = "map (apsnd json_safe) (rename_id d)"
  have e: "serialize_doc (Some d) = Some ?d'" by (rule serialize_doc_eq[OF assms(1)])
  have m: "\<And>k. map_of ?d' k = map_option json_safe (map_of (rename_id d) k)"
    by (rule map_of_json_safe)
  have val: "py_valid v" if "map_of d k = Some v" for k v
    using assms(2) map_of_SomeD[OF that] by (auto simp: valid_values_def list_all_iff)
  have 1: "map_of ?d' ''_id'' = None"
    by (simp add: m map_of_rename_id split: option.splits)
  have 2: "\<forall>h. map_of d ''_id'' = Some (VObjectId h) \<longrightarrow> map_of ?d' ''id'' = Some (VStr h)"
    by (simp add: m map_of_rename_id json_safe_def)
  have 3: "\<forall>v. map_of d ''_id'' = Some v \<longrightarrow> (\<exists>t. map_of ?d' ''id'' = Some (VStr t))"
    by (simp add: m map_of_rename_id json_safe_def)
  have 4: "\<forall>k v. map_of d k = Some v \<and> k \<noteq> ''_id'' \<and> (k \<noteq> ''id'' \<or> map_of d ''_id'' = None) \<longrightarrow>
            (\<exists>r. map_of ?d' k = Some r \<and> rendered v r)"
  proof (intro allI impI)
    fix k v
    assume a: "map_of d k = Some v \<and> k \<noteq> ''_id'' \<and> (k \<noteq> ''id'' \<or> map_of d ''_id'' = None)"
    then have "map_of ?d' k = Some (json_safe v)"
      by (auto simp: m map_of_rename_id split: option.splits)
    moreover have "rendered v (json_safe v)" using a val by (blast intro: rendered_json_safe)
    ultimately show "\<exists>r. map_of ?d' k = Some r \<and> rendered v r" by blast
  qed
  have 5: "\<forall>k. map_of d k = None \<and> k \<noteq> ''id'' \<longrightarrow> map_of ?d' k = None"
    by (auto simp: m map_of_rename_id split: option.splits)
  have 6: "serialize_doc (serialize_doc (Some d)) = serialize_doc (Some d)"
    by (rule serialize_doc_idem[OF assms(1)])
  have 7: "\<forall>h a. a < next_free h \<and> cells h a = d \<longrightarrow>
          (case serialize_doc_heap a h of (c, h') \<Rightarrow>
             Some (cells h' c) = serialize_doc (Some d)
             \<and> (\<forall>b < next_free h. cells h' b = cells h b))"
  proof (intro allI impI)
    fix h :: heap and a
    assume "a < next_free h \<and> cells h a = d"
    then have "a < next_free h" and c: "cells h a = d" by simp_all
    from serialize_doc_heap_result[OF this(1)] show "case serialize_doc_heap a h of (c, h') \<Rightarrow>
             Some (cells h' c) = serialize_doc (Some d)
             \<and> (\<forall>b < next_free h. cells h' b = cells h b)"
      by (simp only: c)
  qed
  from e 1 2 3 4 5 6 7 show ?thesis by blast
qed

theorem serialize_doc_contract_witness:
  "serialize_doc (Some example_record)
     = Some [(''title'', VStr ''Open Day''), (''date'', VStr ''2025-03-01''),
             (''created_at'', VStr ''2025-03-02T10:30:00.123000''),
             (''updated_at'', VStr ''2025-12-31T23:59:59''),
             (''year'', VInt 2025), (''link'', VNone),
             (''id'', VStr ''64b7f0c2a1d3e4f5a6b7c8d9'')]
   \<and> map_of (the (serialize_doc (Some example_record))) ''id'' = Some (VStr ''64b7f0c2a1d3e4f5a6b7c8d9'')
   \<and> map_of (the (serialize_doc (Some example_record))) ''_id'' = None
   \<and> map_of (the (serialize_doc (Some example_record))) ''year'' = Some (VInt 2025)
   \<and> serialize_doc (serialize_doc (Some example_record)) = serialize_doc (Some example_record)
   \<and> cells (snd (serialize_doc_heap 0 example_heap)) 0 = example_record"
proof -
  have w: "wf_dict example_record" by (simp add: wf_dict_def example_record_def)
  have v: "valid_values example_record" by (simp add: valid_values_def example_record_def)
  from serialize_doc_contract[OF w v]
  obtain d' where d': "serialize_doc (Some example_record) = Some d'"
    and 1: "map_of d' ''_id'' = None"
    and 2: "\<forall>h. map_of example_record ''_id'' = Some (VObjectId h) \<longrightarrow> map_of d' ''id'' = Some (VStr h)"
    and 4: "\<forall>k v. map_of example_record k = Some v \<and> k \<noteq> ''_id''
                \<and> (k \<noteq> ''id'' \<or> map_of example_record ''_id'' = None) \<longrightarrow>
            (\<exists>r. map_of d' k = Some r \<and> rendered v r)"
    and 6: "serialize_doc (serialize_doc (Some example_record)) = serialize_doc (Some example_record)"
    and 7: "\<forall>h a. a < next_free h \<and> cells h a = example_record \<longrightarrow>
          (case serialize_doc_heap a h of (c, h') \<Rightarrow>
             Some (cells h' c) = serialize_doc (Some example_record)
             \<and> (\<forall>b < next_free h. cells h' b = cells h b))"
    by blast
  have a: "map_of d' ''id'' = Some (VStr ''64b7f0c2a1d3e4f5a6b7c8d9'')"
    using 2[rule_format, of "''64b7f0c2a1d3e4f5a6b7c8d9''"] by (simp add: example_record_def)
  have c: "map_of d' ''year'' = Some (VInt 2025)"
    using 4[rule_format, of "''year''" "VInt 2025"] by (simp add: example_record_def)
  have "0 < next_free example_heap \<and> cells example_heap 0 = example_record"
    by (simp add: example_heap_def)
  from 7[THEN spec, THEN spec, THEN mp, OF this]
  have "case serialize_doc_heap 0 example_heap of (c, h') \<Rightarrow>
             Some (cells h' c) = serialize_doc (Some example_record)
             \<and> (\<forall>b < next_free example_heap. cells h' b = cells example_heap b)" .
  then have e: "cells (snd (serialize_doc_heap 0 example_heap)) 0 = example_record"
    by (cases "serialize_doc_heap 0 example_heap") (simp add: example_heap_def)
  have f: "serialize_doc (Some example_record)
     = Some [(''title'', VStr ''Open Day''), (''date'', VStr ''2025-03-01''),
             (''created_at'', VStr ''2025-03-02T10:30:00.123000''),
             (''updated_at'', VStr ''2025-12-31T23:59:59''),
             (''year'', VInt 2025), (''link'', VNone),
             (''id'', VStr ''64b7f0c2a1d3e4f5a6b7c8d9'')]"
    by (simp add: example_record_def Let_def rename_id_def dict_contains_def dict_pop_def dict_get_def
        dict_set_def iso_step_def iso_date_def iso_time_def pad2_def pad4_def pad6_def digit_char_def)
  have s: "the (serialize_doc (Some example_record)) = d'" by (simp only: d' option.sel)
  from f a 1 c 6 e show ?thesis unfolding s by (intro conjI)
qed

end
